theory Spec2Isabelle
  imports Main "HOL-Library.Sublist"
begin

section \<open>Python strings and the built-ins the analyzer calls\<close>

text \<open>
  A Python \<open>str\<close> is a sequence of Unicode code points, so it is modelled as a list of
  natural numbers. \<open>asc\<close> turns an ASCII literal into that form; the two Polish letters
  of the patterns get names of their own.

  The character tables of the interpreter (\<open>str.isspace\<close>, \<open>str.lower\<close>,
  \<open>str.isdigit\<close>, the decimal digits accepted by \<open>int\<close>) are not part of the
  repository. \<open>isspace\<close> below is the complete table. \<open>lower_cp\<close>, \<open>isdigit\<close>
  and \<open>isdecimal\<close> are the tables of code points U+0000 to U+017F (Basic Latin, Latin-1
  Supplement, Latin Extended-A, which holds the Polish alphabet); code points above that
  range are treated as having no case and as being no digit.
\<close>

type_synonym pystr = "nat list"

definition asc :: "string \<Rightarrow> pystr" where
  "asc s = map of_char s"

definition a_ogonek :: nat where
  "a_ogonek = 261"

definition C_acute :: nat where
  "C_acute = 262"

definition isspace :: "nat \<Rightarrow> bool" where
  "isspace c \<longleftrightarrow>
     (9 \<le> c \<and> c \<le> 13) \<or> (28 \<le> c \<and> c \<le> 32) \<or> c = 133 \<or> c = 160 \<or> c = 5760 \<or>
     (8192 \<le> c \<and> c \<le> 8202) \<or> c = 8232 \<or> c = 8233 \<or> c = 8239 \<or> c = 8287 \<or> c = 12288"

definition lstrip :: "pystr \<Rightarrow> pystr" where
  "lstrip s = dropWhile isspace s"

definition rstrip :: "pystr \<Rightarrow> pystr" where
  "rstrip s = rev (dropWhile isspace (rev s))"

definition strip :: "pystr \<Rightarrow> pystr" where
  "strip s = rstrip (lstrip s)"

text \<open>\<open>s[i:j]\<close> for \<open>0 \<le> i \<le> j\<close>: a slice never raises, it is cut at the end of \<open>s\<close>.\<close>

definition slice :: "nat \<Rightarrow> nat \<Rightarrow> pystr \<Rightarrow> pystr" where
  "slice i j s = take (j - i) (drop i s)"

datatype exn = ValueError | IndexError | AttributeError | UnboundLocalError

definition bind_exn :: "exn + 'a \<Rightarrow> ('a \<Rightarrow> exn + 'b) \<Rightarrow> exn + 'b" where
  "bind_exn x f = (case x of Inl e \<Rightarrow> Inl e | Inr v \<Rightarrow> f v)"

definition isdecimal :: "nat \<Rightarrow> bool" where
  "isdecimal c \<longleftrightarrow> 48 \<le> c \<and> c \<le> 57"

text \<open>
  \<open>int(s)\<close> on a string: blanks around the number are dropped (every \<open>isspace\<close>
  character but the four ASCII separators U+001C to U+001F, which \<open>int\<close> does not skip),
  then comes an optional sign and decimal digits, where single underscores may stand
  between two digits. Anything else raises \<open>ValueError\<close>.
\<close>

definition int_space :: "nat \<Rightarrow> bool" where
  "int_space c \<longleftrightarrow> isspace c \<and> \<not> (28 \<le> c \<and> c \<le> 31)"

fun digits_ok :: "pystr \<Rightarrow> bool" where
  "digits_ok [] = False"
| "digits_ok [c] = isdecimal c"
| "digits_ok (c # d # cs) =
     (isdecimal c \<and> (if d = 95 then digits_ok cs else digits_ok (d # cs)))"

definition digits_val :: "pystr \<Rightarrow> int" where
  "digits_val ds = foldl (\<lambda>v c. if c = 95 then v else v * 10 + int (c - 48)) 0 ds"

definition py_int :: "pystr \<Rightarrow> exn + int" where
  "py_int s =
     (case rev (dropWhile int_space (rev (dropWhile int_space s))) of
        [] \<Rightarrow> Inl ValueError
      | c # cs \<Rightarrow>
          (let ds = (if c = 45 \<or> c = 43 then cs else c # cs)
           in if digits_ok ds
              then Inr ((if c = 45 then - 1 else 1) * digits_val ds)
              else Inl ValueError))"

section \<open>Duration calculator\<close>

text \<open>
  The body of the \<open>try\<close> block of \<open>_calculate_duration_minutes\<close>: four conversions in
  the order of the source, each of which may raise.
\<close>

definition duration_try :: "pystr \<Rightarrow> pystr \<Rightarrow> exn + int" where
  "duration_try start_time end_time =
     bind_exn (py_int (slice 9 11 start_time)) (\<lambda>start_hour.
     bind_exn (py_int (slice 11 13 start_time)) (\<lambda>start_minute.
     bind_exn (py_int (slice 9 11 end_time)) (\<lambda>end_hour.
     bind_exn (py_int (slice 11 13 end_time)) (\<lambda>end_minute.
       (let start_total_minutes = start_hour * 60 + start_minute;
            end_total_minutes = end_hour * 60 + end_minute
        in Inr (end_total_minutes - start_total_minutes))))))"

text \<open>
  The whole function: the guard on empty tokens, then the \<open>try\<close> block, whose handler
  catches \<open>ValueError\<close> and \<open>IndexError\<close> and lets every other exception through.
\<close>

definition calculate_duration_minutes :: "pystr \<Rightarrow> pystr \<Rightarrow> exn + int" where
  "calculate_duration_minutes start_time end_time =
     (if start_time = [] \<or> end_time = [] then Inr 0
      else (case duration_try start_time end_time of
              Inr d \<Rightarrow> Inr d
            | Inl ValueError \<Rightarrow> Inr 0
            | Inl IndexError \<Rightarrow> Inr 0
            | Inl e \<Rightarrow> Inl e))"

text \<open>
  The minute of the day a token denotes, as the specification names it: sixty times the
  hour field plus the minute field, when both convert.
\<close>

definition minute_of_day :: "pystr \<Rightarrow> exn + int" where
  "minute_of_day t =
     bind_exn (py_int (slice 9 11 t)) (\<lambda>h.
     bind_exn (py_int (slice 11 13 t)) (\<lambda>m. Inr (h * 60 + m)))"

section \<open>Regular expressions of the title parser\<close>

text \<open>
  The patterns of \<open>parse_event_title\<close> use literals, the classes \<open>.\<close>, \<open>\s\<close> and
  \<open>[WL]\<close>, the repetitions \<open>\s*\<close>, \<open>.+\<close> (greedy) and \<open>.+?\<close> (lazy) of one
  class, concatenation, alternation, numbered groups and the anchors \<open>^\<close> and \<open>$\<close>.
  Without flags \<open>.\<close> is every character but the line feed, \<open>\s\<close> is \<open>str.isspace\<close>
  on a \<open>str\<close> pattern, and \<open>$\<close> holds at the end and before a final line feed.
\<close>

datatype cls = AnyC | SpaceC | SetC "nat list"

fun cls_ok :: "cls \<Rightarrow> nat \<Rightarrow> bool" where
  "cls_ok AnyC c = (c \<noteq> 10)"
| "cls_ok SpaceC c = isspace c"
| "cls_ok (SetC cs) c = (c \<in> set cs)"

datatype regex =
    Bol
  | Eol
  | Lit pystr
  | Cls cls
  | StarG cls
  | PlusG cls
  | PlusL cls
  | Seq regex regex
  | Alt regex regex
  | Group nat regex

type_synonym captures = "nat \<Rightarrow> pystr option"

type_synonym mstate = "pystr \<times> captures"

text \<open>
  The backtracking matcher, as the list of its successes in the order in which the
  engine would find them: a state is the rest of the input and the groups set so far. A
  greedy repetition offers the longest run first, a lazy one the shortest; an alternation
  offers its left branch first. \<open>star_g\<close> and \<open>star_l\<close> give the rests of the input
  after zero or more characters of a class.
\<close>

fun star_g :: "(nat \<Rightarrow> bool) \<Rightarrow> pystr \<Rightarrow> pystr list" where
  "star_g p [] = [[]]"
| "star_g p (c # cs) = (if p c then star_g p cs else []) @ [c # cs]"

fun star_l :: "(nat \<Rightarrow> bool) \<Rightarrow> pystr \<Rightarrow> pystr list" where
  "star_l p [] = [[]]"
| "star_l p (c # cs) = (c # cs) # (if p c then star_l p cs else [])"

fun plus_g :: "(nat \<Rightarrow> bool) \<Rightarrow> pystr \<Rightarrow> pystr list" where
  "plus_g p [] = []"
| "plus_g p (c # cs) = (if p c then star_g p cs else [])"

fun plus_l :: "(nat \<Rightarrow> bool) \<Rightarrow> pystr \<Rightarrow> pystr list" where
  "plus_l p [] = []"
| "plus_l p (c # cs) = (if p c then star_l p cs else [])"

text \<open>\<open>n\<close> is the length of the whole input: \<open>^\<close> holds where nothing is consumed yet.\<close>

fun ms :: "nat \<Rightarrow> regex \<Rightarrow> mstate \<Rightarrow> mstate list" where
  "ms n Bol (s, g) = (if length s = n then [(s, g)] else [])"
| "ms n Eol (s, g) = (if s = [] \<or> s = [10] then [(s, g)] else [])"
| "ms n (Lit w) (s, g) = (if take (length w) s = w then [(drop (length w) s, g)] else [])"
| "ms n (Cls k) (s, g) =
     (case s of [] \<Rightarrow> [] | c # cs \<Rightarrow> if cls_ok k c then [(cs, g)] else [])"
| "ms n (StarG k) (s, g) = map (\<lambda>r. (r, g)) (star_g (cls_ok k) s)"
| "ms n (PlusG k) (s, g) = map (\<lambda>r. (r, g)) (plus_g (cls_ok k) s)"
| "ms n (PlusL k) (s, g) = map (\<lambda>r. (r, g)) (plus_l (cls_ok k) s)"
| "ms n (Seq a b) st = concat (map (ms n b) (ms n a st))"
| "ms n (Alt a b) st = ms n a st @ ms n b st"
| "ms n (Group i r) (s, g) =
     map (\<lambda>(s', g'). (s', g'(i \<mapsto> take (length s - length s') s))) (ms n r (s, g))"

text \<open>
  \<open>re.match(pattern, string)\<close>: the match is tried at the start of the string only; the
  result is the first success (the groups of the match object) or \<open>None\<close>.
\<close>

definition re_match :: "regex \<Rightarrow> pystr \<Rightarrow> captures option" where
  "re_match r s =
     (case ms (length s) r (s, \<lambda>i. None) of [] \<Rightarrow> None | (s', g) # rest \<Rightarrow> Some g)"

fun cat :: "regex list \<Rightarrow> regex" where
  "cat [] = Lit []"
| "cat [r] = r"
| "cat (r # rs) = Seq r (cat rs)"

text \<open>\<open>^(.+?)\s*\(\<close>, the start of all eight patterns.\<close>

definition head_re :: "regex list" where
  "head_re = [Bol, Group 1 (PlusL AnyC), StarG SpaceC, Lit (asc ''('')]"

text \<open>
  \<open>\)\s*-\s*Prowadz.cy:\s*(.+?),\s*Sala:\s*(.+)$\<close>, the end of the four full
  patterns, with the numbers of its two groups.
\<close>

definition Prowadzacy :: pystr where
  "Prowadzacy = asc ''Prowadz'' @ [a_ogonek] @ asc ''cy:''"

definition tail_re :: "nat \<Rightarrow> nat \<Rightarrow> regex list" where
  "tail_re i j =
     [Lit (asc '')''), StarG SpaceC, Lit (asc ''-''), StarG SpaceC, Lit Prowadzacy,
      StarG SpaceC, Group i (PlusL AnyC), Lit (asc '',''), StarG SpaceC, Lit (asc ''Sala:''),
      StarG SpaceC, Group j (PlusG AnyC), Eol]"

text \<open>\<open>([WL]|E-CW)\<close> as group 2.\<close>

definition tag_WL_ECW :: regex where
  "tag_WL_ECW = Group 2 (Alt (Cls (SetC (asc ''WL''))) (Lit (asc ''E-CW'')))"

definition tag_EW :: pystr where
  "tag_EW = asc ''E-W''"

definition tag_E_CW :: pystr where
  "tag_E_CW = asc ''E-'' @ [C_acute] @ asc ''W''"

definition tag_CW :: pystr where
  "tag_CW = [C_acute] @ asc ''W''"

definition pattern1 :: regex where
  "pattern1 = cat (head_re @ [tag_WL_ECW] @ tail_re 3 4)"

definition pattern2 :: regex where
  "pattern2 = cat (head_re @ [Lit tag_EW] @ tail_re 2 3)"

definition pattern3 :: regex where
  "pattern3 = cat (head_re @ [Lit tag_E_CW] @ tail_re 2 3)"

definition pattern4 :: regex where
  "pattern4 = cat (head_re @ [Lit tag_CW] @ tail_re 2 3)"

definition simple_patterns :: "regex list" where
  "simple_patterns =
     [cat (head_re @ [tag_WL_ECW, Lit (asc '')'')]),
      cat (head_re @ [Lit tag_EW, Lit (asc '')'')]),
      cat (head_re @ [Lit tag_E_CW, Lit (asc '')'')]),
      cat (head_re @ [Lit tag_CW, Lit (asc '')'')])]"

section \<open>Title parser\<close>

type_synonym parsed = "pystr option \<times> pystr option \<times> pystr option \<times> pystr option"

text \<open>
  \<open>match.group(i).strip()\<close>: a group that took no part in the match is \<open>None\<close>, and
  the method call on it raises \<open>AttributeError\<close>.
\<close>

definition group_strip :: "captures \<Rightarrow> nat \<Rightarrow> exn + pystr" where
  "group_strip m i = (case m i of None \<Rightarrow> Inl AttributeError | Some w \<Rightarrow> Inr (strip w))"

text \<open>
  The loop over \<open>enumerate(simple_patterns)\<close>. An index other than 0 to 3 would leave
  \<open>event_type\<close> unassigned at the \<open>return\<close>.
\<close>

fun simple_loop :: "pystr \<Rightarrow> (nat \<times> regex) list \<Rightarrow> exn + parsed" where
  "simple_loop title [] = Inr (None, None, None, None)"
| "simple_loop title ((i, pattern) # rest) =
     (case re_match pattern title of
        Some m \<Rightarrow>
          bind_exn (group_strip m 1) (\<lambda>subject.
            if i = 0 then
              bind_exn (group_strip m 2) (\<lambda>event_type.
                Inr (Some subject, Some event_type, None, None))
            else if i = 1 then Inr (Some subject, Some (asc ''W''), None, None)
            else if i = 2 then Inr (Some subject, Some (asc ''E-CW''), None, None)
            else if i = 3 then Inr (Some subject, Some (asc ''L''), None, None)
            else Inl UnboundLocalError)
      | None \<Rightarrow> simple_loop title rest)"

definition parse_event_title :: "pystr \<Rightarrow> exn + parsed" where
  "parse_event_title title0 =
     (let title = strip title0 in
      case re_match pattern1 title of
        Some match1 \<Rightarrow>
          bind_exn (group_strip match1 1) (\<lambda>subject.
          bind_exn (group_strip match1 2) (\<lambda>event_type.
          bind_exn (group_strip match1 3) (\<lambda>instructor.
          bind_exn (group_strip match1 4) (\<lambda>room.
            Inr (Some subject, Some event_type, Some instructor, Some room)))))
      | None \<Rightarrow>
      (case re_match pattern2 title of
        Some match2 \<Rightarrow>
          bind_exn (group_strip match2 1) (\<lambda>subject.
          bind_exn (group_strip match2 2) (\<lambda>instructor.
          bind_exn (group_strip match2 3) (\<lambda>room.
            Inr (Some subject, Some (asc ''W''), Some instructor, Some room))))
      | None \<Rightarrow>
      (case re_match pattern3 title of
        Some match3 \<Rightarrow>
          bind_exn (group_strip match3 1) (\<lambda>subject.
          bind_exn (group_strip match3 2) (\<lambda>instructor.
          bind_exn (group_strip match3 3) (\<lambda>room.
            Inr (Some subject, Some (asc ''E-CW''), Some instructor, Some room))))
      | None \<Rightarrow>
      (case re_match pattern4 title of
        Some match4 \<Rightarrow>
          bind_exn (group_strip match4 1) (\<lambda>subject.
          bind_exn (group_strip match4 2) (\<lambda>instructor.
          bind_exn (group_strip match4 3) (\<lambda>room.
            Inr (Some subject, Some (asc ''L''), Some instructor, Some room))))
      | None \<Rightarrow> simple_loop title (zip [0 ..< length simple_patterns] simple_patterns)))))"

section \<open>Location classifier\<close>

text \<open>
  The four category strings the classifier returns, which are also the keys of
  \<open>location_stats\<close>.
\<close>

datatype location = Teams | Moodle | Uczelnia | Inne_lokalizacje

definition lower_cp :: "nat \<Rightarrow> pystr" where
  "lower_cp c =
     (if (65 \<le> c \<and> c \<le> 90) \<or> (192 \<le> c \<and> c \<le> 222 \<and> c \<noteq> 215) then [c + 32]
      else if c = 304 then [105, 775]
      else if ((256 \<le> c \<and> c \<le> 311) \<or> (330 \<le> c \<and> c \<le> 375)) \<and> even c then [c + 1]
      else if ((313 \<le> c \<and> c \<le> 328) \<or> (377 \<le> c \<and> c \<le> 382)) \<and> odd c then [c + 1]
      else if c = 376 then [255]
      else [c])"

definition lower :: "pystr \<Rightarrow> pystr" where
  "lower s = concat (map lower_cp s)"

definition isdigit :: "nat \<Rightarrow> bool" where
  "isdigit c \<longleftrightarrow> (48 \<le> c \<and> c \<le> 57) \<or> c = 178 \<or> c = 179 \<or> c = 185"

text \<open>\<open>w in s\<close> on strings, and \<open>s.startswith(w)\<close>.\<close>

fun py_in :: "pystr \<Rightarrow> pystr \<Rightarrow> bool" where
  "py_in w [] = (w = [])"
| "py_in w (c # cs) = (take (length w) (c # cs) = w \<or> py_in w cs)"

definition startswith :: "pystr \<Rightarrow> pystr \<Rightarrow> bool" where
  "startswith s w \<longleftrightarrow> take (length w) s = w"

definition categorize_location :: "pystr option \<Rightarrow> location" where
  "categorize_location room =
     (case room of
        None \<Rightarrow> Inne_lokalizacje
      | Some r \<Rightarrow>
          if r = [] then Inne_lokalizacje
          else
            (let room_lower = lower r in
             if py_in (asc ''teams'') room_lower \<or> py_in (asc ''platforma teams'') room_lower
             then Teams
             else if py_in (asc ''moodle'') room_lower
                     \<or> py_in (asc ''platforma moodle'') room_lower
             then Moodle
             else if list_ex (\<lambda>keyword. py_in keyword room_lower)
                       [asc ''sala'', asc ''budynek'', asc ''aula'', asc ''laboratorium'']
             then Uczelnia
             else if list_ex (startswith room_lower)
                       [asc ''a'', asc ''b'', asc ''c'', asc ''d'', asc ''e'', asc ''f'']
                     \<and> list_ex isdigit room_lower
             then Uczelnia
             else Inne_lokalizacje))"

section \<open>Aggregator\<close>

record stats =
  wyklady :: int
  laboratoria :: int
  e_cw :: int
  inne :: int
  total_events :: int

record location_stats =
  loc_teams :: int
  loc_moodle :: int
  loc_uczelnia :: int
  loc_inne_lokalizacje :: int

record subject_rec =
  sub_wyklady :: int
  sub_laboratoria :: int
  sub_e_cw :: int
  prowadzacy :: "pystr set"
  sale :: "pystr set"

record time_stats =
  total_minutes :: int
  wyklady_minutes :: int
  laboratoria_minutes :: int
  e_cw_minutes :: int
  uczelnia_minutes :: int
  zdalne_minutes :: int

record schedule_entry =
  en_subject :: pystr
  en_type :: pystr
  en_instructor :: "pystr option"
  en_room :: "pystr option"
  en_start_time :: pystr
  en_end_time :: pystr
  en_title :: pystr

record analyzer =
  stats :: stats
  location_stats :: location_stats
  subjects :: "pystr \<rightharpoonup> subject_rec"
  uczelnia_schedule :: "schedule_entry list"
  time_stats :: time_stats

text \<open>The state \<open>__init__\<close> builds.\<close>

definition init :: analyzer where
  "init =
     \<lparr>stats = \<lparr>wyklady = 0, laboratoria = 0, e_cw = 0, inne = 0, total_events = 0\<rparr>,
      location_stats =
        \<lparr>loc_teams = 0, loc_moodle = 0, loc_uczelnia = 0, loc_inne_lokalizacje = 0\<rparr>,
      subjects = Map.empty,
      uczelnia_schedule = [],
      time_stats =
        \<lparr>total_minutes = 0, wyklady_minutes = 0, laboratoria_minutes = 0,
         e_cw_minutes = 0, uczelnia_minutes = 0, zdalne_minutes = 0\<rparr>\<rparr>"

text \<open>
  \<open>self.subjects[subject]\<close> on the \<open>defaultdict\<close>: a missing key is created with the
  default record before it is updated.
\<close>

definition subject_default :: subject_rec where
  "subject_default =
     \<lparr>sub_wyklady = 0, sub_laboratoria = 0, sub_e_cw = 0, prowadzacy = {}, sale = {}\<rparr>"

definition subject_upd ::
  "(subject_rec \<Rightarrow> subject_rec) \<Rightarrow> pystr \<Rightarrow> analyzer \<Rightarrow> analyzer" where
  "subject_upd f subject self =
     self\<lparr>subjects := (subjects self)
       (subject \<mapsto> f (case subjects self subject of None \<Rightarrow> subject_default | Some r \<Rightarrow> r))\<rparr>"

text \<open>\<open>event.get(key, default)\<close> on the dictionary of an event.\<close>

type_synonym event = "pystr \<rightharpoonup> pystr"

definition dict_get :: "event \<Rightarrow> pystr \<Rightarrow> pystr \<Rightarrow> pystr" where
  "dict_get d k v = (case d k of Some x \<Rightarrow> x | None \<Rightarrow> v)"

text \<open>Truth value of an \<open>Optional[str]\<close>: \<open>None\<close> and the empty string are false.\<close>

definition truthy :: "pystr option \<Rightarrow> bool" where
  "truthy x \<longleftrightarrow> (case x of None \<Rightarrow> False | Some w \<Rightarrow> w \<noteq> [])"

text \<open>
  The three steps of \<open>_process_simple_event\<close> after the early return, in the order of
  the source: the counters by type, the subject's instructors and rooms, and the
  location with its minutes and the schedule.
\<close>

definition count_type :: "pystr \<Rightarrow> pystr \<Rightarrow> int \<Rightarrow> analyzer \<Rightarrow> analyzer" where
  "count_type subject event_type duration_minutes self =
     (if event_type = asc ''W'' then
        subject_upd (\<lambda>r. r\<lparr>sub_wyklady := sub_wyklady r + 1\<rparr>) subject
          (self\<lparr>stats := (stats self)\<lparr>wyklady := wyklady (stats self) + 1\<rparr>\<rparr>)
          \<lparr>time_stats := (time_stats self)
             \<lparr>wyklady_minutes := wyklady_minutes (time_stats self) + duration_minutes\<rparr>\<rparr>
      else if event_type = asc ''L'' then
        subject_upd (\<lambda>r. r\<lparr>sub_laboratoria := sub_laboratoria r + 1\<rparr>) subject
          (self\<lparr>stats := (stats self)\<lparr>laboratoria := laboratoria (stats self) + 1\<rparr>\<rparr>)
          \<lparr>time_stats := (time_stats self)
             \<lparr>laboratoria_minutes :=
                laboratoria_minutes (time_stats self) + duration_minutes\<rparr>\<rparr>
      else if event_type \<in> set [asc ''E-CW'', tag_E_CW] then
        subject_upd (\<lambda>r. r\<lparr>sub_e_cw := sub_e_cw r + 1\<rparr>) subject
          (self\<lparr>stats := (stats self)\<lparr>e_cw := e_cw (stats self) + 1\<rparr>\<rparr>)
          \<lparr>time_stats := (time_stats self)
             \<lparr>e_cw_minutes := e_cw_minutes (time_stats self) + duration_minutes\<rparr>\<rparr>
      else self\<lparr>stats := (stats self)\<lparr>inne := inne (stats self) + 1\<rparr>\<rparr>)"

definition note_subject :: "pystr \<Rightarrow> pystr option \<Rightarrow> pystr option \<Rightarrow> analyzer \<Rightarrow> analyzer" where
  "note_subject subject instructor room self =
     (let self = (case instructor of
                    Some i \<Rightarrow>
                      if i \<noteq> [] then subject_upd (\<lambda>r. r\<lparr>prowadzacy := insert i (prowadzacy r)\<rparr>)
                                       subject self
                      else self
                  | None \<Rightarrow> self)
      in (case room of
            Some x \<Rightarrow>
              if x \<noteq> [] then subject_upd (\<lambda>r. r\<lparr>sale := insert x (sale r)\<rparr>) subject self
              else self
          | None \<Rightarrow> self))"

definition count_location :: "location \<Rightarrow> analyzer \<Rightarrow> analyzer" where
  "count_location location_category self =
     self\<lparr>location_stats :=
       (case location_category of
          Teams \<Rightarrow> (location_stats self)\<lparr>loc_teams := loc_teams (location_stats self) + 1\<rparr>
        | Moodle \<Rightarrow> (location_stats self)\<lparr>loc_moodle := loc_moodle (location_stats self) + 1\<rparr>
        | Uczelnia \<Rightarrow>
            (location_stats self)\<lparr>loc_uczelnia := loc_uczelnia (location_stats self) + 1\<rparr>
        | Inne_lokalizacje \<Rightarrow>
            (location_stats self)
              \<lparr>loc_inne_lokalizacje := loc_inne_lokalizacje (location_stats self) + 1\<rparr>)\<rparr>"

definition count_location_minutes :: "location \<Rightarrow> int \<Rightarrow> analyzer \<Rightarrow> analyzer" where
  "count_location_minutes location_category duration_minutes self =
     (if location_category = Uczelnia then
        self\<lparr>time_stats := (time_stats self)
          \<lparr>uczelnia_minutes := uczelnia_minutes (time_stats self) + duration_minutes\<rparr>\<rparr>
      else
        self\<lparr>time_stats := (time_stats self)
          \<lparr>zdalne_minutes := zdalne_minutes (time_stats self) + duration_minutes\<rparr>\<rparr>)"

definition add_schedule ::
  "location \<Rightarrow> pystr \<Rightarrow> pystr \<Rightarrow> pystr option \<Rightarrow> pystr option \<Rightarrow> pystr \<Rightarrow> pystr \<Rightarrow> pystr
     \<Rightarrow> analyzer \<Rightarrow> analyzer" where
  "add_schedule location_category subject event_type instructor room start_time end_time
       title self =
     (if location_category = Uczelnia \<and> start_time \<noteq> [] \<and> truthy room then
        self\<lparr>uczelnia_schedule := uczelnia_schedule self @
          [\<lparr>en_subject = subject, en_type = event_type, en_instructor = instructor,
            en_room = room, en_start_time = start_time, en_end_time = end_time,
            en_title = title\<rparr>]\<rparr>
      else self)"

definition process_simple_event :: "analyzer \<Rightarrow> event \<Rightarrow> exn + analyzer" where
  "process_simple_event self0 event =
     (let title = dict_get event (asc ''SUMMARY'') [];
          start_time = dict_get event (asc ''DTSTART;TZID=Europe/Warsaw'')
                         (dict_get event (asc ''DTSTART'') []);
          end_time = dict_get event (asc ''DTEND;TZID=Europe/Warsaw'')
                       (dict_get event (asc ''DTEND'') []);
          self1 = self0\<lparr>stats := (stats self0)\<lparr>total_events := total_events (stats self0) + 1\<rparr>\<rparr>
      in
      bind_exn (calculate_duration_minutes start_time end_time) (\<lambda>duration_minutes.
        let self2 = self1\<lparr>time_stats := (time_stats self1)
              \<lparr>total_minutes := total_minutes (time_stats self1) + duration_minutes\<rparr>\<rparr>
        in
        bind_exn (parse_event_title title) (\<lambda>(subject, event_type, instructor, room).
          (case (subject, event_type) of
             (Some s, Some t) \<Rightarrow>
               if s = [] \<or> t = [] then
                 Inr (self2\<lparr>stats := (stats self2)\<lparr>inne := inne (stats self2) + 1\<rparr>\<rparr>)
               else
                 (let self3 = count_type s t duration_minutes self2;
                      self4 = note_subject s instructor room self3;
                      location_category = categorize_location room;
                      self5 = count_location location_category self4;
                      self6 = count_location_minutes location_category duration_minutes self5
                  in Inr (add_schedule location_category s t instructor room start_time
                            end_time title self6))
           | _ \<Rightarrow> Inr (self2\<lparr>stats := (stats self2)\<lparr>inne := inne (stats self2) + 1\<rparr>\<rparr>)))))"

text \<open>
  The loop of \<open>analyze_ics_file\<close> over the events of the file: an exception of one call
  ends the run.
\<close>

fun process_events :: "analyzer \<Rightarrow> event list \<Rightarrow> exn + analyzer" where
  "process_events self [] = Inr self"
| "process_events self (event # events) =
     bind_exn (process_simple_event self event) (\<lambda>self'. process_events self' events)"


section \<open>The classifier as the specification words it\<close>




section \<open>Notions used in the proofs about the matcher\<close>

text \<open>
  The words a regular expression can consume (the anchors consume nothing), the words a
  group with a given number can hold, and the groups that every match sets.
\<close>

fun lang :: "regex \<Rightarrow> pystr set" where
  "lang Bol = {[]}"
| "lang Eol = {[]}"
| "lang (Lit w) = {w}"
| "lang (Cls k) = {w. \<exists>c. w = [c] \<and> cls_ok k c}"
| "lang (StarG k) = {w. list_all (cls_ok k) w}"
| "lang (PlusG k) = {w. w \<noteq> [] \<and> list_all (cls_ok k) w}"
| "lang (PlusL k) = {w. w \<noteq> [] \<and> list_all (cls_ok k) w}"
| "lang (Seq a b) = {w. \<exists>u v. w = u @ v \<and> u \<in> lang a \<and> v \<in> lang b}"
| "lang (Alt a b) = lang a \<union> lang b"
| "lang (Group i r) = lang r"

fun glang :: "nat \<Rightarrow> regex \<Rightarrow> pystr set" where
  "glang i (Seq a b) = glang i a \<union> glang i b"
| "glang i (Alt a b) = glang i a \<union> glang i b"
| "glang i (Group j r) = (if i = j then lang r else {}) \<union> glang i r"
| "glang i r = {}"

fun gdef :: "regex \<Rightarrow> nat set" where
  "gdef (Seq a b) = gdef a \<union> gdef b"
| "gdef (Alt a b) = gdef a \<inter> gdef b"
| "gdef (Group j r) = insert j (gdef r)"
| "gdef r = {}"

text \<open>The result a title that fits no pattern gets.\<close>

definition unparsed :: parsed where
  "unparsed = (None, None, None, None)"

text \<open>
  The two shapes a result of the parser has: nothing recognised, or a subject that is
  not empty with one of the three type strings the parser returns.
\<close>

definition well_shaped :: "exn + parsed \<Rightarrow> bool" where
  "well_shaped x \<longleftrightarrow>
     x = Inr unparsed \<or>
     (\<exists>s ty i r. x = Inr (Some s, Some ty, i, r) \<and> s \<noteq> []
        \<and> ty \<in> {asc ''W'', asc ''L'', asc ''E-CW''})"

section \<open>Quantities the claims about the aggregator speak of\<close>

text \<open>
  The three fields \<open>_process_simple_event\<close> reads from an event, the duration it
  computes for it, and whether its title is parsed.
\<close>

definition ev_title :: "event \<Rightarrow> pystr" where
  "ev_title event = dict_get event (asc ''SUMMARY'') []"

definition ev_start :: "event \<Rightarrow> pystr" where
  "ev_start event =
     dict_get event (asc ''DTSTART;TZID=Europe/Warsaw'') (dict_get event (asc ''DTSTART'') [])"

definition ev_end :: "event \<Rightarrow> pystr" where
  "ev_end event =
     dict_get event (asc ''DTEND;TZID=Europe/Warsaw'') (dict_get event (asc ''DTEND'') [])"

definition ev_duration :: "event \<Rightarrow> int" where
  "ev_duration event =
     (case calculate_duration_minutes (ev_start event) (ev_end event) of
        Inr d \<Rightarrow> d
      | Inl x \<Rightarrow> 0)"

definition ev_parsed :: "event \<Rightarrow> bool" where
  "ev_parsed event \<longleftrightarrow> parse_event_title (ev_title event) \<noteq> Inr unparsed"

text \<open>The sums of the counters by type, of the minutes by type and by location.\<close>

definition type_count :: "analyzer \<Rightarrow> int" where
  "type_count self = wyklady (stats self) + laboratoria (stats self) + e_cw (stats self)"

definition type_minutes :: "analyzer \<Rightarrow> int" where
  "type_minutes self =
     wyklady_minutes (time_stats self) + laboratoria_minutes (time_stats self)
     + e_cw_minutes (time_stats self)"

definition location_minutes :: "analyzer \<Rightarrow> int" where
  "location_minutes self = uczelnia_minutes (time_stats self) + zdalne_minutes (time_stats self)"

text \<open>
  The itinerary entry of an event as the specification words it: a parsed event whose
  room is classified as on campus, with a room and a start token present, gives the
  entry of its fields; every other event gives none.
\<close>

definition itinerary_entry :: "event \<Rightarrow> schedule_entry option" where
  "itinerary_entry event =
     (case parse_event_title (ev_title event) of
        Inr (Some s, Some ty, i, r) \<Rightarrow>
          if categorize_location r = Uczelnia \<and> truthy r \<and> ev_start event \<noteq> []
          then Some \<lparr>en_subject = s, en_type = ty, en_instructor = i, en_room = r,
                     en_start_time = ev_start event, en_end_time = ev_end event,
                     en_title = ev_title event\<rparr>
          else None
      | _ \<Rightarrow> None)"

text \<open>The state after the two updates every call makes before the title is parsed.\<close>

definition counted :: "analyzer \<Rightarrow> event \<Rightarrow> analyzer" where
  "counted self e =
     self\<lparr>stats := (stats self)\<lparr>total_events := total_events (stats self) + 1\<rparr>,
          time_stats := (time_stats self)
            \<lparr>total_minutes := total_minutes (time_stats self) + ev_duration e\<rparr>\<rparr>"

section \<open>The end-to-end scenarios of the specification, as events\<close>

definition lecture_event :: event where
  "lecture_event =
     [asc ''SUMMARY'' \<mapsto>
        asc ''Bazy Danych (W) - Prowadz'' @ [a_ogonek] @ asc ''cy: Jan Kowalski, Sala: A101'',
      asc ''DTSTART'' \<mapsto> asc ''20251116T080000'',
      asc ''DTEND'' \<mapsto> asc ''20251116T091500'']"

definition remote_event :: event where
  "remote_event =
     [asc ''SUMMARY'' \<mapsto>
        asc ''Algorytmy (E-CW) - Prowadz'' @ [a_ogonek]
          @ asc ''cy: Anna Nowak, Sala: Platforma Teams'',
      asc ''DTSTART;TZID=Europe/Warsaw'' \<mapsto> asc ''20251117T100000'',
      asc ''DTEND;TZID=Europe/Warsaw'' \<mapsto> asc ''20251117T113000'']"

definition unparsed_event :: event where
  "unparsed_event =
     [asc ''SUMMARY'' \<mapsto> asc ''Losowy tekst bez formatu'',
      asc ''DTSTART'' \<mapsto> asc ''20251116T080000'',
      asc ''DTEND'' \<mapsto> asc ''20251116T091500'']"

section \<open>The title grammar of the specification\<close>

text \<open>
  The six tags, the two forms of a title as the specification writes them (with the
  words of the source, \<open>Prowadzacy\<close> for the instructor and \<open>Sala\<close> for the
  room), and what makes the fields of a title valid: a field is not blank, is one line
  and holds no opening parenthesis (the subject is everything before the opening
  parenthesis); the names of the instructors do not hold the room keyword.
\<close>

definition six_tags :: "pystr list" where
  "six_tags = [asc ''W'', asc ''L'', asc ''E-CW'', tag_EW, tag_E_CW, tag_CW]"

definition short_title :: "pystr \<Rightarrow> pystr \<Rightarrow> pystr" where
  "short_title subject tag = subject @ asc '' ('' @ tag @ asc '')''"

definition full_title :: "pystr \<Rightarrow> pystr \<Rightarrow> pystr \<Rightarrow> pystr \<Rightarrow> pystr" where
  "full_title subject tag names room =
     subject @ asc '' ('' @ tag @ asc '') - '' @ Prowadzacy @ asc '' '' @ names
       @ asc '', Sala: '' @ room"

definition plain_field :: "pystr \<Rightarrow> bool" where
  "plain_field x \<longleftrightarrow> strip x \<noteq> [] \<and> 10 \<notin> set x \<and> 40 \<notin> set x"

definition plain_names :: "pystr \<Rightarrow> bool" where
  "plain_names x \<longleftrightarrow> plain_field x \<and> \<not> sublist (asc ''Sala:'') x"

text \<open>
  The class types, the type the aggregator counts an event under (the chain of
  comparisons in \<open>_process_simple_event\<close>), and the normalization table of the
  specification.
\<close>

datatype class_type = Lecture | Lab | RemoteExercise

definition class_of :: "pystr \<Rightarrow> class_type option" where
  "class_of event_type =
     (if event_type = asc ''W'' then Some Lecture
      else if event_type = asc ''L'' then Some Lab
      else if event_type \<in> set [asc ''E-CW'', tag_E_CW] then Some RemoteExercise
      else None)"

definition normalize_tag :: "pystr \<Rightarrow> class_type option" where
  "normalize_tag tag =
     (if tag = asc ''W'' \<or> tag = tag_EW then Some Lecture
      else if tag = asc ''L'' \<or> tag = tag_CW then Some Lab
      else if tag = asc ''E-CW'' \<or> tag = tag_E_CW then Some RemoteExercise
      else None)"

text \<open>The type string the parser returns for a tag.\<close>

definition tag_event_type :: "pystr \<Rightarrow> pystr" where
  "tag_event_type tag =
     (if tag = tag_EW then asc ''W''
      else if tag = tag_E_CW then asc ''E-CW''
      else if tag = tag_CW then asc ''L''
      else tag)"

text \<open>The class type of a title: that of the type string the parser returns for it.\<close>

definition parsed_class :: "pystr \<Rightarrow> class_type option" where
  "parsed_class title =
     (case parse_event_title title of
        Inr (Some s, Some ty, i, r) \<Rightarrow> class_of ty
      | _ \<Rightarrow> None)"

text \<open>
  A title begins with the short form when it starts with a subject (at least one
  character, no line feed), blanks or none, and one of the six tags in parentheses.
\<close>

definition begins_short_form :: "pystr \<Rightarrow> bool" where
  "begins_short_form t \<longleftrightarrow>
     (\<exists>s ws tag rest. s \<noteq> [] \<and> 10 \<notin> set s \<and> list_all isspace ws \<and> tag \<in> set six_tags
        \<and> t = s @ ws @ asc ''('' @ tag @ asc '')'' @ rest)"

text \<open>
  The two forms of the grammar, read strictly: the short form ends with the closing
  parenthesis of the tag, the full form goes on with the instructor and the room.
\<close>

definition is_short_form :: "pystr \<Rightarrow> bool" where
  "is_short_form t \<longleftrightarrow>
     (\<exists>s tag. strip s \<noteq> [] \<and> tag \<in> set six_tags \<and> strip t = strip (short_title s tag))"

definition is_full_form :: "pystr \<Rightarrow> bool" where
  "is_full_form t \<longleftrightarrow>
     (\<exists>s tag n r. tag \<in> set six_tags \<and> strip t = strip (full_title s tag n r))"

section \<open>Facts about the built-ins\<close>

lemma asc_Nil [simp]: "asc [] = []"
  by (simp add: asc_def)

lemma asc_Cons [simp]: "asc (c # cs) = of_char c # asc cs"
  by (simp add: asc_def)

lemma py_int_raises_only_ValueError: "py_int s = Inl e \<Longrightarrow> e = ValueError"
  by (auto simp: py_int_def Let_def split: list.splits if_splits)

lemma py_int_Nil [simp]: "py_int [] = Inl ValueError"
  by (simp add: py_int_def)

lemma minute_of_day_raises_only_ValueError: "minute_of_day t = Inl e \<Longrightarrow> e = ValueError"
  by (auto simp: minute_of_day_def bind_exn_def split: sum.splits
           dest: py_int_raises_only_ValueError)

lemma duration_try_minute_of_day:
  "duration_try s e =
     bind_exn (minute_of_day s) (\<lambda>a. bind_exn (minute_of_day e) (\<lambda>b. Inr (b - a)))"
  by (simp add: duration_try_def minute_of_day_def bind_exn_def Let_def split: sum.splits)

lemma calculate_duration_minutes_cases:
  "calculate_duration_minutes s e =
     (if s = [] \<or> e = [] then Inr 0
      else (case (minute_of_day s, minute_of_day e) of
              (Inr a, Inr b) \<Rightarrow> Inr (b - a)
            | _ \<Rightarrow> Inr 0))"
  by (auto simp: calculate_duration_minutes_def duration_try_minute_of_day bind_exn_def
           split: sum.splits exn.splits
           dest: minute_of_day_raises_only_ValueError)



section \<open>Duration calculator: claims C4 and C5\<close>

lemmas duration_eval =
  calculate_duration_minutes_def duration_try_def minute_of_day_def bind_exn_def slice_def
  py_int_def int_space_def isspace_def isdecimal_def digits_val_def

text \<open>
  Claim C4 as stated: the duration is never negative. With an end token whose minute of
  the day is smaller than the start token's, the function returns a negative number.
\<close>

theorem C4_negative_duration_counterexample:
  "calculate_duration_minutes (asc ''20251116T100000'') (asc ''20251116T080000'') = Inr (- 120)"
  by (simp add: duration_eval)

text \<open>
  Claim C4, amended: the function always returns an integer, and that integer is
  negative exactly when both tokens are non-empty, the hour and minute fields of both
  convert, and the end's minute of the day is smaller than the start's; in every other
  case it is zero or positive.
\<close>

theorem C4_duration_sign:
  "\<exists>d. calculate_duration_minutes s e = Inr d \<and>
     (d < 0 \<longleftrightarrow>
        s \<noteq> [] \<and> e \<noteq> [] \<and>
        (\<exists>a b. minute_of_day s = Inr a \<and> minute_of_day e = Inr b \<and> b < a))"
  by (auto simp: calculate_duration_minutes_cases split: sum.splits)

theorem C4_duration_sign_witness:
  "\<exists>d. calculate_duration_minutes (asc ''20251116T080000'') (asc ''20251116T091500'') = Inr d
       \<and> 0 \<le> d"
proof -
  have a: "minute_of_day (asc ''20251116T080000'') = Inr 480"
    by (simp add: duration_eval)
  have b: "minute_of_day (asc ''20251116T091500'') = Inr 555"
    by (simp add: duration_eval)
  from C4_duration_sign [of "asc ''20251116T080000''" "asc ''20251116T091500''"]
  show ?thesis
    unfolding a b by auto
qed



section \<open>Location classifier: claim C3\<close>









lemma sublist_Nil_right: "w \<noteq> [] \<Longrightarrow> \<not> sublist w []"
  by simp


lemmas location_eval = categorize_location_def lower_def lower_cp_def isdigit_def startswith_def



section \<open>Soundness of the matcher\<close>

lemma star_g_mem: "r \<in> set (star_g p s) \<Longrightarrow> \<exists>w. s = w @ r \<and> list_all p w"
proof (induction s)
  case Nil
  then show ?case by simp
next
  case (Cons c cs)
  show ?case
  proof (cases "r = c # cs")
    case True
    then show ?thesis by simp
  next
    case False
    with Cons.prems have "p c" "r \<in> set (star_g p cs)"
      by (auto split: if_splits)
    with Cons.IH obtain w where "cs = w @ r" "list_all p w" by blast
    with \<open>p c\<close> have "c # cs = (c # w) @ r \<and> list_all p (c # w)" by simp
    then show ?thesis by blast
  qed
qed

lemma star_l_mem: "r \<in> set (star_l p s) \<Longrightarrow> \<exists>w. s = w @ r \<and> list_all p w"
proof (induction s)
  case Nil
  then show ?case by simp
next
  case (Cons c cs)
  show ?case
  proof (cases "r = c # cs")
    case True
    then show ?thesis by simp
  next
    case False
    with Cons.prems have "p c" "r \<in> set (star_l p cs)"
      by (auto split: if_splits)
    with Cons.IH obtain w where "cs = w @ r" "list_all p w" by blast
    with \<open>p c\<close> have "c # cs = (c # w) @ r \<and> list_all p (c # w)" by simp
    then show ?thesis by blast
  qed
qed

lemma plus_g_mem: "r \<in> set (plus_g p s) \<Longrightarrow> \<exists>w. s = w @ r \<and> w \<noteq> [] \<and> list_all p w"
proof (cases s)
  case Nil
  then show "r \<in> set (plus_g p s) \<Longrightarrow> ?thesis" by simp
next
  case (Cons c cs)
  assume "r \<in> set (plus_g p s)"
  with Cons have "p c" "r \<in> set (star_g p cs)" by (auto split: if_splits)
  then obtain w where "cs = w @ r" "list_all p w" using star_g_mem by blast
  with \<open>p c\<close> Cons have "s = (c # w) @ r \<and> c # w \<noteq> [] \<and> list_all p (c # w)" by simp
  then show ?thesis by blast
qed

lemma plus_l_mem: "r \<in> set (plus_l p s) \<Longrightarrow> \<exists>w. s = w @ r \<and> w \<noteq> [] \<and> list_all p w"
proof (cases s)
  case Nil
  then show "r \<in> set (plus_l p s) \<Longrightarrow> ?thesis" by simp
next
  case (Cons c cs)
  assume "r \<in> set (plus_l p s)"
  with Cons have "p c" "r \<in> set (star_l p cs)" by (auto split: if_splits)
  then obtain w where "cs = w @ r" "list_all p w" using star_l_mem by blast
  with \<open>p c\<close> Cons have "s = (c # w) @ r \<and> c # w \<noteq> [] \<and> list_all p (c # w)" by simp
  then show ?thesis by blast
qed

text \<open>Soundness of the matcher: what a match consumes is a word of the expression.\<close>

lemma ms_consumes:
  "(s', g') \<in> set (ms n r (s, g)) \<Longrightarrow> \<exists>w \<in> lang r. s = w @ s'"
proof (induction r arbitrary: s g s' g')
  case Bol
  then show ?case by (auto split: if_splits)
next
  case Eol
  then show ?case by (auto split: if_splits)
next
  case (Lit w)
  then show ?case by (auto split: if_splits) (metis append_take_drop_id)
next
  case (Cls k)
  then show ?case by (auto split: list.splits if_splits)
next
  case (StarG k)
  then show ?case using star_g_mem [of s' "cls_ok k" s] by auto
next
  case (PlusG k)
  then show ?case using plus_g_mem [of s' "cls_ok k" s] by auto
next
  case (PlusL k)
  then show ?case using plus_l_mem [of s' "cls_ok k" s] by auto
next
  case (Seq a b)
  from Seq.prems obtain m gm where 1: "(m, gm) \<in> set (ms n a (s, g))"
    and 2: "(s', g') \<in> set (ms n b (m, gm))"
    by auto
  from Seq.IH(1) [OF 1] obtain u where u: "u \<in> lang a" "s = u @ m" by blast
  from Seq.IH(2) [OF 2] obtain v where v: "v \<in> lang b" "m = v @ s'" by blast
  from u v have "u @ v \<in> lang (Seq a b)" "s = (u @ v) @ s'" by auto
  then show ?case by blast
next
  case (Alt a b)
  from Alt.prems have "(s', g') \<in> set (ms n a (s, g)) \<or> (s', g') \<in> set (ms n b (s, g))"
    by simp
  then show ?case
    using Alt.IH(1) [of s' g' s g] Alt.IH(2) [of s' g' s g] by auto
next
  case (Group i r)
  then show ?case by auto
qed

lemma ms_captures:
  "(s', g') \<in> set (ms n r (s, g)) \<Longrightarrow> g' i = g i \<or> (\<exists>w \<in> glang i r. g' i = Some w)"
proof (induction r arbitrary: s g s' g')
  case (Seq a b)
  from Seq.prems obtain m gm where 1: "(m, gm) \<in> set (ms n a (s, g))"
    and 2: "(s', g') \<in> set (ms n b (m, gm))"
    by auto
  from Seq.IH(1) [OF 1] Seq.IH(2) [OF 2] show ?case by auto
next
  case (Alt a b)
  from Alt.prems have "(s', g') \<in> set (ms n a (s, g)) \<or> (s', g') \<in> set (ms n b (s, g))"
    by simp
  then show ?case
    using Alt.IH(1) [of s' g' s g] Alt.IH(2) [of s' g' s g] by auto
next
  case (Group j r)
  from Group.prems obtain g1 where 1: "(s', g1) \<in> set (ms n r (s, g))"
    and g': "g' = g1(j \<mapsto> take (length s - length s') s)"
    by auto
  from ms_consumes [OF 1] obtain w where w: "w \<in> lang r" "s = w @ s'" by blast
  then have "take (length s - length s') s = w" by simp
  with g' w Group.IH [OF 1] show ?case by auto
qed (auto split: if_splits list.splits)

lemma ms_keeps:
  "(s', g') \<in> set (ms n r (s, g)) \<Longrightarrow> g i \<noteq> None \<Longrightarrow> g' i \<noteq> None"
  using ms_captures [of s' g' n r s g i] by auto

lemma ms_defines:
  "(s', g') \<in> set (ms n r (s, g)) \<Longrightarrow> i \<in> gdef r \<Longrightarrow> g' i \<noteq> None"
proof (induction r arbitrary: s g s' g')
  case (Seq a b)
  from Seq.prems obtain m gm where 1: "(m, gm) \<in> set (ms n a (s, g))"
    and 2: "(s', g') \<in> set (ms n b (m, gm))"
    by auto
  show ?case
  proof (cases "i \<in> gdef b")
    case True
    with Seq.IH(2) [OF 2] show ?thesis by simp
  next
    case False
    with Seq.prems have "i \<in> gdef a" by simp
    with Seq.IH(1) [OF 1] have "gm i \<noteq> None" by simp
    with ms_keeps [OF 2] show ?thesis by simp
  qed
next
  case (Alt a b)
  from Alt.prems have "(s', g') \<in> set (ms n a (s, g)) \<or> (s', g') \<in> set (ms n b (s, g))"
    by simp
  then show ?case
    using Alt.IH(1) [of s' g' s g] Alt.IH(2) [of s' g' s g] Alt.prems(2) by auto
next
  case (Group j r)
  then show ?case by (auto split: if_splits)
qed simp_all

section \<open>Shape of the parser's results\<close>

lemma re_match_Some:
  "re_match r s = Some m \<Longrightarrow> \<exists>s'. (s', m) \<in> set (ms (length s) r (s, \<lambda>i. None))"
  by (auto simp: re_match_def split: list.splits)

lemma re_match_None:
  "re_match r s = None \<longleftrightarrow> ms (length s) r (s, \<lambda>i. None) = []"
  by (auto simp: re_match_def split: list.splits)

lemma cat_Cons: "rs \<noteq> [] \<Longrightarrow> cat (r # rs) = Seq r (cat rs)"
  by (cases rs) simp_all

lemma head_states:
  assumes "(s', g') \<in> set (ms (length t) (cat (Bol # Group 1 (PlusL AnyC) # rest)) (t, g))"
    and "rest \<noteq> []"
  shows "\<exists>w r. t = w @ r \<and> w \<noteq> [] \<and> (s', g') \<in> set (ms (length t) (cat rest) (r, g(1 \<mapsto> w)))"
proof -
  from assms obtain r where r: "r \<in> set (plus_l (cls_ok AnyC) t)"
    and m: "(s', g') \<in> set (ms (length t) (cat rest) (r, g(1 \<mapsto> take (length t - length r) t)))"
    by (auto simp: cat_Cons)
  from plus_l_mem [OF r] obtain w where w: "t = w @ r" "w \<noteq> []" by blast
  then have "take (length t - length r) t = w" by simp
  with m w show ?thesis by auto
qed

lemma isspace_hd_lstrip: "lstrip s = c # cs \<Longrightarrow> \<not> isspace c"
  unfolding lstrip_def by (metis dropWhile_eq_Cons_conv)

lemma rstrip_Cons: "\<not> isspace c \<Longrightarrow> \<exists>cs'. rstrip (c # cs) = c # cs'"
proof -
  assume c: "\<not> isspace c"
  show ?thesis
  proof (cases "\<forall>x \<in> set cs. isspace x")
    case True
    with c have "rstrip (c # cs) = c # []"
      by (simp add: rstrip_def dropWhile_append)
    then show ?thesis ..
  next
    case False
    with c have "rstrip (c # cs) = c # rev (dropWhile isspace (rev cs))"
      by (simp add: rstrip_def dropWhile_append)
    then show ?thesis ..
  qed
qed

lemma strip_Cons: "\<not> isspace c \<Longrightarrow> \<exists>cs'. strip (c # cs) = c # cs'"
  unfolding strip_def lstrip_def using rstrip_Cons [of c cs] by simp

lemma strip_hd: "strip s = c # cs \<Longrightarrow> \<not> isspace c"
proof -
  assume a: "strip s = c # cs"
  then have ne: "lstrip s \<noteq> []" by (auto simp: strip_def rstrip_def)
  then obtain d ds where d: "lstrip s = d # ds" by (cases "lstrip s") auto
  then have nd: "\<not> isspace d" by (rule isspace_hd_lstrip)
  from rstrip_Cons [OF nd, of ds] a d have "c = d" by (auto simp: strip_def)
  with nd show ?thesis by simp
qed

lemma strip_prefix_nonempty:
  assumes "strip s = w @ r" and "w \<noteq> []"
  shows "strip w \<noteq> []"
proof -
  from assms obtain c cs where w: "w = c # cs" by (cases w) auto
  with assms have "strip s = c # (cs @ r)" by simp
  then have "\<not> isspace c" by (rule strip_hd)
  from strip_Cons [OF this, of cs] w show ?thesis by auto
qed

lemma group_strip_Some: "m i = Some w \<Longrightarrow> group_strip m i = Inr (strip w)"
  by (simp add: group_strip_def)

lemmas strip_eval = strip_def lstrip_def rstrip_def isspace_def

lemma strip_tags:
  "strip (asc ''W'') = asc ''W''" "strip (asc ''L'') = asc ''L''"
  "strip (asc ''E-CW'') = asc ''E-CW''"
  by (simp_all add: strip_eval)

lemmas pattern_defs =
  pattern1_def pattern2_def pattern3_def pattern4_def simple_patterns_def head_re_def
  tail_re_def tag_WL_ECW_def

text \<open>What a match of a pattern that starts with \<open>^(.+?)\<close> says about group 1.\<close>

lemma head_group1:
  assumes m: "re_match (cat (Bol # Group 1 (PlusL AnyC) # rest)) (strip t) = Some m"
    and rest: "rest \<noteq> []" "glang 1 (cat rest) = {}"
  shows "\<exists>w. m 1 = Some w \<and> strip w \<noteq> []"
proof -
  from re_match_Some [OF m] obtain s' where
    "(s', m) \<in> set (ms (length (strip t)) (cat (Bol # Group 1 (PlusL AnyC) # rest))
        (strip t, \<lambda>i. None))" ..
  from head_states [OF this rest(1)] obtain w r where w: "strip t = w @ r" "w \<noteq> []"
    and in_rest: "(s', m) \<in> set (ms (length (strip t)) (cat rest) (r, (\<lambda>i. None)(1 \<mapsto> w)))"
    by blast
  from ms_captures [OF in_rest, of 1] rest(2) have "m 1 = Some w" by simp
  with strip_prefix_nonempty [OF w] show ?thesis by simp
qed

lemma tag_group2:
  assumes m: "re_match r s = Some m" and d: "2 \<in> gdef r"
    and l: "glang 2 r = {asc ''W'', asc ''L'', asc ''E-CW''}"
  shows "\<exists>ty. m 2 = Some ty \<and> strip ty = ty \<and> ty \<in> {asc ''W'', asc ''L'', asc ''E-CW''}"
proof -
  from re_match_Some [OF m] obtain s' where in_r: "(s', m) \<in> set (ms (length s) r (s, \<lambda>i. None))" ..
  from ms_defines [OF in_r d] have "m 2 \<noteq> None" .
  with ms_captures [OF in_r, of 2] obtain ty where ty: "m 2 = Some ty" "ty \<in> glang 2 r"
    by blast
  from ty(2) have "ty = asc ''W'' \<or> ty = asc ''L'' \<or> ty = asc ''E-CW''"
    unfolding l by blast
  then have "strip ty = ty"
    using strip_tags by metis
  with ty show ?thesis unfolding l by blast
qed

lemma group_defined:
  assumes m: "re_match r s = Some m" and d: "i \<in> gdef r"
  shows "\<exists>w. m i = Some w"
proof -
  from re_match_Some [OF m] obtain s' where in_r: "(s', m) \<in> set (ms (length s) r (s, \<lambda>i. None))" ..
  from ms_defines [OF in_r d] show ?thesis by auto
qed

lemma glang_tag:
  "lang (Alt (Cls (SetC (asc ''WL''))) (Lit (asc ''E-CW''))) = {asc ''W'', asc ''L'', asc ''E-CW''}"
proof -
  have "{w. \<exists>c. w = [c] \<and> (c = 76 \<or> c = 87)} = {[76], [87 :: nat]}"
    by blast
  then show ?thesis by simp blast
qed

lemma head_re_cat:
  "cat (head_re @ X) = cat (Bol # Group 1 (PlusL AnyC) # StarG SpaceC # Lit (asc ''('') # X)"
  by (simp only: head_re_def append_Cons append_Nil)

lemma glang_tag2: "glang 2 tag_WL_ECW = {asc ''W'', asc ''L'', asc ''E-CW''}"
  unfolding tag_WL_ECW_def glang.simps glang_tag by simp

lemma gdef_tag2: "gdef tag_WL_ECW = {2}"
  by (simp add: tag_WL_ECW_def)

lemma glang1_tag: "i \<noteq> 2 \<Longrightarrow> glang i tag_WL_ECW = {}"
  by (simp add: tag_WL_ECW_def)

lemma glang_cat_Cons: "glang i (cat (r # rs)) = glang i r \<union> glang i (cat rs)"
  by (cases rs) simp_all

lemma gdef_cat_Cons: "gdef (cat (r # rs)) = gdef r \<union> gdef (cat rs)"
  by (cases rs) simp_all

lemma glang_cat_Nil: "glang i (cat []) = {}"
  by simp

lemma gdef_cat_Nil: "gdef (cat []) = {}"
  by simp

lemmas group_calc =
  glang_cat_Cons gdef_cat_Cons glang_cat_Nil gdef_cat_Nil glang_tag2 gdef_tag2 glang1_tag
  tail_re_def

text \<open>Group 1 of a match of any of the eight patterns is not blank.\<close>

lemma pattern_group1:
  assumes "re_match (cat (head_re @ X)) (strip t) = Some m"
    and "glang 1 (cat X) = {}"
  shows "\<exists>w. m 1 = Some w \<and> strip w \<noteq> []"
proof (rule head_group1)
  show "re_match (cat (Bol # Group 1 (PlusL AnyC) # StarG SpaceC # Lit (asc ''('') # X))
          (strip t) = Some m"
    using assms(1) by (simp only: head_re_cat)
  show "StarG SpaceC # Lit (asc ''('') # X \<noteq> []" by simp
  show "glang 1 (cat (StarG SpaceC # Lit (asc ''('') # X)) = {}"
    using assms(2) by (simp add: glang_cat_Cons)
qed

lemma gdef_head: "gdef (cat (head_re @ X)) = insert 1 (gdef (cat X))"
  by (simp add: head_re_cat gdef_cat_Cons)

lemma glang_head: "i \<noteq> 1 \<Longrightarrow> glang i (cat (head_re @ X)) = glang i (cat X)"
  by (simp add: head_re_cat glang_cat_Cons)

lemma full_pattern1:
  assumes "re_match pattern1 (strip t) = Some m"
  shows "\<exists>s ty i r. m 1 = Some s \<and> strip s \<noteq> [] \<and> m 2 = Some ty \<and> strip ty = ty
           \<and> ty \<in> {asc ''W'', asc ''L'', asc ''E-CW''} \<and> m 3 = Some i \<and> m 4 = Some r"
proof -
  have d: "2 \<in> gdef pattern1" "3 \<in> gdef pattern1" "4 \<in> gdef pattern1"
    unfolding pattern1_def gdef_head by (simp_all add: group_calc)
  have l: "glang 2 pattern1 = {asc ''W'', asc ''L'', asc ''E-CW''}"
    unfolding pattern1_def by (simp add: glang_head group_calc del: asc_Cons asc_Nil)
  have "glang 1 (cat ([tag_WL_ECW] @ tail_re 3 4)) = {}"
    by (simp add: group_calc)
  with assms obtain s where 1: "m 1 = Some s" "strip s \<noteq> []"
    unfolding pattern1_def using pattern_group1 by blast
  from tag_group2 [OF assms d(1) l] obtain ty where 2: "m 2 = Some ty" "strip ty = ty"
    "ty \<in> {asc ''W'', asc ''L'', asc ''E-CW''}" by blast
  from group_defined [OF assms d(2)] obtain i where 3: "m 3 = Some i" ..
  from group_defined [OF assms d(3)] obtain r where 4: "m 4 = Some r" ..
  from 1 2 3 4 show ?thesis by blast
qed

lemma full_pattern_lit:
  assumes "re_match (cat (head_re @ [Lit tag] @ tail_re 2 3)) (strip t) = Some m"
  shows "\<exists>s i r. m 1 = Some s \<and> strip s \<noteq> [] \<and> m 2 = Some i \<and> m 3 = Some r"
proof -
  have d: "2 \<in> gdef (cat (head_re @ [Lit tag] @ tail_re 2 3))"
    "3 \<in> gdef (cat (head_re @ [Lit tag] @ tail_re 2 3))"
    unfolding gdef_head by (simp_all add: group_calc)
  have "glang 1 (cat ([Lit tag] @ tail_re 2 3)) = {}"
    by (simp add: group_calc)
  with assms obtain s where 1: "m 1 = Some s" "strip s \<noteq> []"
    using pattern_group1 by blast
  from group_defined [OF assms d(1)] obtain i where 2: "m 2 = Some i" ..
  from group_defined [OF assms d(2)] obtain r where 3: "m 3 = Some r" ..
  from 1 2 3 show ?thesis by blast
qed

lemma simple_pattern0:
  assumes "re_match (cat (head_re @ [tag_WL_ECW, Lit (asc '')'')])) (strip t) = Some m"
  shows "\<exists>s ty. m 1 = Some s \<and> strip s \<noteq> [] \<and> m 2 = Some ty \<and> strip ty = ty
           \<and> ty \<in> {asc ''W'', asc ''L'', asc ''E-CW''}"
proof -
  have d: "2 \<in> gdef (cat (head_re @ [tag_WL_ECW, Lit (asc '')'')]))"
    unfolding gdef_head by (simp add: group_calc)
  have l: "glang 2 (cat (head_re @ [tag_WL_ECW, Lit (asc '')'')]))
           = {asc ''W'', asc ''L'', asc ''E-CW''}"
    by (simp add: glang_head group_calc del: asc_Cons asc_Nil)
  have "glang 1 (cat [tag_WL_ECW, Lit (asc '')'')]) = {}"
    by (simp add: group_calc)
  with assms have 1: "\<exists>w. m 1 = Some w \<and> strip w \<noteq> []"
    by (rule pattern_group1)
  with tag_group2 [OF assms d l] show ?thesis by blast
qed

lemma simple_pattern_lit:
  assumes "re_match (cat (head_re @ [Lit tag, Lit (asc '')'')])) (strip t) = Some m"
  shows "\<exists>s. m 1 = Some s \<and> strip s \<noteq> []"
proof -
  have "glang 1 (cat [Lit tag, Lit (asc '')'')]) = {}"
    by simp
  with assms show ?thesis
    by (rule pattern_group1)
qed

lemma simple_patterns_zip:
  "zip [0 ..< length simple_patterns] simple_patterns =
     [(0, cat (head_re @ [tag_WL_ECW, Lit (asc '')'')])),
      (1, cat (head_re @ [Lit tag_EW, Lit (asc '')'')])),
      (2, cat (head_re @ [Lit tag_E_CW, Lit (asc '')'')])),
      (3, cat (head_re @ [Lit tag_CW, Lit (asc '')'')]))]"
  unfolding simple_patterns_def by (simp add: upt_conv_Cons)

lemma simple_loop_shape:
  "well_shaped (simple_loop (strip t) (zip [0 ..< length simple_patterns] simple_patterns))"
proof -
  let ?T = "strip t"
  let ?p0 = "cat (head_re @ [tag_WL_ECW, Lit (asc '')'')])"
  let ?p1 = "cat (head_re @ [Lit tag_EW, Lit (asc '')'')])"
  let ?p2 = "cat (head_re @ [Lit tag_E_CW, Lit (asc '')'')])"
  let ?p3 = "cat (head_re @ [Lit tag_CW, Lit (asc '')'')])"
  have 3: "well_shaped (simple_loop ?T [(3, ?p3)])"
  proof (cases "re_match ?p3 ?T")
    case None
    then show ?thesis by (simp add: well_shaped_def unparsed_def)
  next
    case (Some m)
    from simple_pattern_lit [OF Some] obtain s where "m 1 = Some s" "strip s \<noteq> []" by blast
    with Some show ?thesis
      by (simp add: well_shaped_def group_strip_def bind_exn_def del: asc_Cons asc_Nil)
  qed
  have 2: "well_shaped (simple_loop ?T [(2, ?p2), (3, ?p3)])"
  proof (cases "re_match ?p2 ?T")
    case None
    with 3 show ?thesis by simp
  next
    case (Some m)
    from simple_pattern_lit [OF Some] obtain s where "m 1 = Some s" "strip s \<noteq> []" by blast
    with Some show ?thesis
      by (simp add: well_shaped_def group_strip_def bind_exn_def del: asc_Cons asc_Nil)
  qed
  have 1: "well_shaped (simple_loop ?T [(1, ?p1), (2, ?p2), (3, ?p3)])"
  proof (cases "re_match ?p1 ?T")
    case None
    with 2 show ?thesis by simp
  next
    case (Some m)
    from simple_pattern_lit [OF Some] obtain s where "m 1 = Some s" "strip s \<noteq> []" by blast
    with Some show ?thesis
      by (simp add: well_shaped_def group_strip_def bind_exn_def del: asc_Cons asc_Nil)
  qed
  have 0: "well_shaped (simple_loop ?T [(0, ?p0), (1, ?p1), (2, ?p2), (3, ?p3)])"
  proof (cases "re_match ?p0 ?T")
    case None
    with 1 show ?thesis by simp
  next
    case (Some m)
    from simple_pattern0 [OF Some] obtain s ty where "m 1 = Some s" "strip s \<noteq> []"
      "m 2 = Some ty" "strip ty = ty" "ty \<in> {asc ''W'', asc ''L'', asc ''E-CW''}" by blast
    with Some show ?thesis
      by (simp add: well_shaped_def group_strip_def bind_exn_def del: asc_Cons asc_Nil)
  qed
  then show ?thesis by (simp only: simple_patterns_zip)
qed

lemma parse_event_title_shape: "well_shaped (parse_event_title t)"
proof -
  let ?T = "strip t"
  show ?thesis
  proof (cases "re_match pattern1 ?T")
    case (Some m)
    from full_pattern1 [OF Some] obtain s ty i r where "m 1 = Some s" "strip s \<noteq> []"
      "m 2 = Some ty" "strip ty = ty" "ty \<in> {asc ''W'', asc ''L'', asc ''E-CW''}"
      "m 3 = Some i" "m 4 = Some r" by blast
    with Some show ?thesis
      by (simp add: parse_event_title_def well_shaped_def group_strip_def bind_exn_def
          del: asc_Cons asc_Nil)
  next
    case n1: None
    show ?thesis
    proof (cases "re_match pattern2 ?T")
      case (Some m)
      from full_pattern_lit [OF Some [unfolded pattern2_def]] obtain s i r where
        "m 1 = Some s" "strip s \<noteq> []" "m 2 = Some i" "m 3 = Some r" by blast
      with n1 Some show ?thesis
        by (simp add: parse_event_title_def well_shaped_def group_strip_def bind_exn_def
            del: asc_Cons asc_Nil)
    next
      case n2: None
      show ?thesis
      proof (cases "re_match pattern3 ?T")
        case (Some m)
        from full_pattern_lit [OF Some [unfolded pattern3_def]] obtain s i r where
          "m 1 = Some s" "strip s \<noteq> []" "m 2 = Some i" "m 3 = Some r" by blast
        with n1 n2 Some show ?thesis
          by (simp add: parse_event_title_def well_shaped_def group_strip_def bind_exn_def
              del: asc_Cons asc_Nil)
      next
        case n3: None
        show ?thesis
        proof (cases "re_match pattern4 ?T")
          case (Some m)
          from full_pattern_lit [OF Some [unfolded pattern4_def]] obtain s i r where
            "m 1 = Some s" "strip s \<noteq> []" "m 2 = Some i" "m 3 = Some r" by blast
          with n1 n2 n3 Some show ?thesis
            by (simp add: parse_event_title_def well_shaped_def group_strip_def bind_exn_def
                del: asc_Cons asc_Nil)
        next
          case n4: None
          with n1 n2 n3 simple_loop_shape [of t] show ?thesis
            by (simp add: parse_event_title_def)
        qed
      qed
    qed
  qed
qed

lemmas parse_eval =
  parse_event_title_def re_match_def pattern_defs group_strip_def bind_exn_def strip_eval
  Prowadzacy_def a_ogonek_def C_acute_def tag_EW_def tag_E_CW_def tag_CW_def unparsed_def
  upt_conv_Cons

section \<open>One call of the aggregator\<close>

lemma calculate_duration_minutes_total: "\<exists>d. calculate_duration_minutes s e = Inr d"
  by (auto simp: calculate_duration_minutes_cases split: sum.splits)

lemma ev_duration_eq:
  "calculate_duration_minutes (ev_start e) (ev_end e) = Inr (ev_duration e)"
  using calculate_duration_minutes_total [of "ev_start e" "ev_end e"]
  by (auto simp: ev_duration_def)

lemma process_unparsed:
  assumes "parse_event_title (ev_title e) = Inr unparsed"
  shows "process_simple_event self e =
           Inr ((counted self e)\<lparr>stats := (stats (counted self e))
                  \<lparr>inne := inne (stats self) + 1\<rparr>\<rparr>)"
  using assms ev_duration_eq [of e]
  by (simp add: process_simple_event_def bind_exn_def unparsed_def counted_def Let_def
      ev_title_def ev_start_def ev_end_def)

lemma process_parsed:
  assumes "parse_event_title (ev_title e) = Inr (Some s, Some ty, i, r)" "s \<noteq> []" "ty \<noteq> []"
  shows "process_simple_event self e =
           Inr (add_schedule (categorize_location r) s ty i r (ev_start e) (ev_end e) (ev_title e)
                 (count_location_minutes (categorize_location r) (ev_duration e)
                   (count_location (categorize_location r)
                     (note_subject s i r (count_type s ty (ev_duration e) (counted self e))))))"
  using assms ev_duration_eq [of e]
  by (simp add: process_simple_event_def bind_exn_def counted_def Let_def
      ev_title_def ev_start_def ev_end_def)


lemmas aggregate_defs =
  count_type_def note_subject_def subject_upd_def count_location_def
  count_location_minutes_def add_schedule_def counted_def type_count_def type_minutes_def
  location_minutes_def

lemma note_subject_fields [simp]:
  "stats (note_subject s i r self) = stats self"
  "time_stats (note_subject s i r self) = time_stats self"
  "uczelnia_schedule (note_subject s i r self) = uczelnia_schedule self"
  "location_stats (note_subject s i r self) = location_stats self"
  by (simp_all add: note_subject_def subject_upd_def Let_def split: option.splits)

lemma count_location_fields [simp]:
  "stats (count_location c self) = stats self"
  "time_stats (count_location c self) = time_stats self"
  "uczelnia_schedule (count_location c self) = uczelnia_schedule self"
  "subjects (count_location c self) = subjects self"
  by (simp_all add: count_location_def)

lemma count_location_minutes_fields [simp]:
  "stats (count_location_minutes c d self) = stats self"
  "uczelnia_schedule (count_location_minutes c d self) = uczelnia_schedule self"
  "subjects (count_location_minutes c d self) = subjects self"
  "location_stats (count_location_minutes c d self) = location_stats self"
  "total_minutes (time_stats (count_location_minutes c d self)) = total_minutes (time_stats self)"
  "type_minutes (count_location_minutes c d self) = type_minutes self"
  "location_minutes (count_location_minutes c d self) = location_minutes self + d"
  by (simp_all add: count_location_minutes_def type_minutes_def location_minutes_def)

lemma add_schedule_fields [simp]:
  "stats (add_schedule c s ty i r a b t self) = stats self"
  "time_stats (add_schedule c s ty i r a b t self) = time_stats self"
  "subjects (add_schedule c s ty i r a b t self) = subjects self"
  "location_stats (add_schedule c s ty i r a b t self) = location_stats self"
  "type_count (add_schedule c s ty i r a b t self) = type_count self"
  "type_minutes (add_schedule c s ty i r a b t self) = type_minutes self"
  "location_minutes (add_schedule c s ty i r a b t self) = location_minutes self"
  by (simp_all add: add_schedule_def type_count_def type_minutes_def location_minutes_def)

lemma type_count_stats: "stats a = stats b \<Longrightarrow> type_count a = type_count b"
  by (simp add: type_count_def)

lemma type_minutes_time: "time_stats a = time_stats b \<Longrightarrow> type_minutes a = type_minutes b"
  by (simp add: type_minutes_def)

lemma location_minutes_time:
  "time_stats a = time_stats b \<Longrightarrow> location_minutes a = location_minutes b"
  by (simp add: location_minutes_def)

lemma count_type_fields:
  assumes "ty \<in> {asc ''W'', asc ''L'', asc ''E-CW''}"
  shows "type_count (count_type s ty d self) = type_count self + 1"
    and "inne (stats (count_type s ty d self)) = inne (stats self)"
    and "total_events (stats (count_type s ty d self)) = total_events (stats self)"
    and "type_minutes (count_type s ty d self) = type_minutes self + d"
    and "location_minutes (count_type s ty d self) = location_minutes self"
    and "total_minutes (time_stats (count_type s ty d self)) = total_minutes (time_stats self)"
    and "uczelnia_schedule (count_type s ty d self) = uczelnia_schedule self"
    and "location_stats (count_type s ty d self) = location_stats self"
  using assms
  by (auto simp: count_type_def subject_upd_def type_count_def type_minutes_def
      location_minutes_def)

lemma tag_nonempty: "ty \<in> {asc ''W'', asc ''L'', asc ''E-CW''} \<Longrightarrow> ty \<noteq> []"
  by auto

lemma itinerary_entry_unparsed:
  "parse_event_title (ev_title e) = Inr unparsed \<Longrightarrow> itinerary_entry e = None"
  by (simp add: itinerary_entry_def unparsed_def)

lemma itinerary_entry_parsed:
  "parse_event_title (ev_title e) = Inr (Some s, Some ty, i, r) \<Longrightarrow>
   itinerary_entry e =
     (if categorize_location r = Uczelnia \<and> truthy r \<and> ev_start e \<noteq> []
      then Some \<lparr>en_subject = s, en_type = ty, en_instructor = i, en_room = r,
                 en_start_time = ev_start e, en_end_time = ev_end e, en_title = ev_title e\<rparr>
      else None)"
  by (simp add: itinerary_entry_def)

text \<open>What one call of \<open>_process_simple_event\<close> does to the quantities of the claims.\<close>

lemma process_step:
  "\<exists>st. process_simple_event self e = Inr st
     \<and> total_events (stats st) = total_events (stats self) + 1
     \<and> type_count st = type_count self + (if ev_parsed e then 1 else 0)
     \<and> inne (stats st) = inne (stats self) + (if ev_parsed e then 0 else 1)
     \<and> type_minutes st = type_minutes self + (if ev_parsed e then ev_duration e else 0)
     \<and> location_minutes st = location_minutes self + (if ev_parsed e then ev_duration e else 0)
     \<and> total_minutes (time_stats st) = total_minutes (time_stats self) + ev_duration e
     \<and> uczelnia_schedule st =
         uczelnia_schedule self @ (case itinerary_entry e of None \<Rightarrow> [] | Some en \<Rightarrow> [en])"
proof -
  from parse_event_title_shape [of "ev_title e"]
  consider (unparsed) "parse_event_title (ev_title e) = Inr unparsed"
    | (parsed) s ty i r where "parse_event_title (ev_title e) = Inr (Some s, Some ty, i, r)"
        "s \<noteq> []" "ty \<in> {asc ''W'', asc ''L'', asc ''E-CW''}"
    unfolding well_shaped_def by blast
  then show ?thesis
  proof cases
    case unparsed
    then have "\<not> ev_parsed e" by (simp add: ev_parsed_def)
    with unparsed show ?thesis
      by (simp add: process_unparsed itinerary_entry_unparsed counted_def type_count_def
          type_minutes_def location_minutes_def)
  next
    case parsed
    then have p: "ev_parsed e" by (simp add: ev_parsed_def unparsed_def)
    note ne = tag_nonempty [OF parsed(3)]
    note ct = count_type_fields [OF parsed(3), of s "ev_duration e" "counted self e"]
    have c: "type_count (counted self e) = type_count self"
      "inne (stats (counted self e)) = inne (stats self)"
      "total_events (stats (counted self e)) = total_events (stats self) + 1"
      "type_minutes (counted self e) = type_minutes self"
      "location_minutes (counted self e) = location_minutes self"
      "total_minutes (time_stats (counted self e)) = total_minutes (time_stats self) + ev_duration e"
      "uczelnia_schedule (counted self e) = uczelnia_schedule self"
      by (simp_all add: counted_def type_count_def type_minutes_def location_minutes_def)
    let ?n = "note_subject s i r (count_type s ty (ev_duration e) (counted self e))"
    let ?l = "count_location (categorize_location r) ?n"
    have n: "type_count ?l = type_count self + 1"
      "type_minutes ?l = type_minutes self + ev_duration e"
      "location_minutes ?l = location_minutes self"
      using ct c
      by (simp_all add: type_count_stats [of ?l "count_type s ty (ev_duration e) (counted self e)"]
          type_minutes_time [of ?l "count_type s ty (ev_duration e) (counted self e)"]
          location_minutes_time [of ?l "count_type s ty (ev_duration e) (counted self e)"])
    have tc: "type_count (count_location_minutes (categorize_location r) (ev_duration e) ?l)
              = type_count self + 1"
      using n(1) by (simp add: type_count_stats [of "count_location_minutes (categorize_location r) (ev_duration e) ?l" ?l])
    have sch: "uczelnia_schedule
                 (add_schedule (categorize_location r) s ty i r (ev_start e) (ev_end e) (ev_title e)
                   (count_location_minutes (categorize_location r) (ev_duration e) ?l))
               = uczelnia_schedule self @ (case itinerary_entry e of None \<Rightarrow> [] | Some en \<Rightarrow> [en])"
      using ct(7) c(7) by (simp add: add_schedule_def itinerary_entry_parsed [OF parsed(1)])
    show ?thesis
      unfolding process_parsed [OF parsed(1) parsed(2) ne]
      using p ct c n tc sch by simp
  qed
qed

section \<open>A whole run: claims C1, C8, C9 and C10\<close>

lemma process_events_effect:
  "\<exists>st. process_events self es = Inr st
     \<and> total_events (stats st) = total_events (stats self) + int (length es)
     \<and> type_count st = type_count self + int (length (filter ev_parsed es))
     \<and> inne (stats st) = inne (stats self) + int (length (filter (\<lambda>e. \<not> ev_parsed e) es))
     \<and> type_minutes st = type_minutes self + sum_list (map ev_duration (filter ev_parsed es))
     \<and> location_minutes st
         = location_minutes self + sum_list (map ev_duration (filter ev_parsed es))
     \<and> total_minutes (time_stats st)
         = total_minutes (time_stats self) + sum_list (map ev_duration es)
     \<and> uczelnia_schedule st = uczelnia_schedule self @ List.map_filter itinerary_entry es"
proof (induction es arbitrary: self)
  case Nil
  then show ?case by (simp add: List.map_filter_simps)
next
  case (Cons e es)
  from process_step [of self e] obtain s1 where s1: "process_simple_event self e = Inr s1"
    and 1: "total_events (stats s1) = total_events (stats self) + 1"
      "type_count s1 = type_count self + (if ev_parsed e then 1 else 0)"
      "inne (stats s1) = inne (stats self) + (if ev_parsed e then 0 else 1)"
      "type_minutes s1 = type_minutes self + (if ev_parsed e then ev_duration e else 0)"
      "location_minutes s1 = location_minutes self + (if ev_parsed e then ev_duration e else 0)"
      "total_minutes (time_stats s1) = total_minutes (time_stats self) + ev_duration e"
      "uczelnia_schedule s1 =
         uczelnia_schedule self @ (case itinerary_entry e of None \<Rightarrow> [] | Some en \<Rightarrow> [en])"
    by blast
  from Cons.IH [of s1] obtain st where st: "process_events s1 es = Inr st"
    and 2: "total_events (stats st) = total_events (stats s1) + int (length es)"
      "type_count st = type_count s1 + int (length (filter ev_parsed es))"
      "inne (stats st) = inne (stats s1) + int (length (filter (\<lambda>e. \<not> ev_parsed e) es))"
      "type_minutes st = type_minutes s1 + sum_list (map ev_duration (filter ev_parsed es))"
      "location_minutes st = location_minutes s1 + sum_list (map ev_duration (filter ev_parsed es))"
      "total_minutes (time_stats st) = total_minutes (time_stats s1) + sum_list (map ev_duration es)"
      "uczelnia_schedule st = uczelnia_schedule s1 @ List.map_filter itinerary_entry es"
    by blast
  have "process_events self (e # es) = Inr st"
    using s1 st by (simp add: bind_exn_def)
  moreover have "uczelnia_schedule st
      = uczelnia_schedule self @ List.map_filter itinerary_entry (e # es)"
    using 1(7) 2(7) by (simp add: List.map_filter_simps split: option.splits)
  ultimately show ?case
    using 1 2 by simp
qed

lemma init_fields:
  "total_events (stats init) = 0" "type_count init = 0" "inne (stats init) = 0"
  "type_minutes init = 0" "location_minutes init = 0" "total_minutes (time_stats init) = 0"
  "uczelnia_schedule init = []"
  by (simp_all add: init_def type_count_def type_minutes_def location_minutes_def)

lemmas event_eval =
  ev_title_def ev_start_def ev_end_def dict_get_def lecture_event_def remote_event_def
  unparsed_event_def

lemma lecture_event_parse:
  "parse_event_title (ev_title lecture_event)
   = Inr (Some (asc ''Bazy Danych''), Some (asc ''W''), Some (asc ''Jan Kowalski''),
          Some (asc ''A101''))"
  by (simp add: event_eval parse_eval)

lemma remote_event_parse:
  "parse_event_title (ev_title remote_event)
   = Inr (Some (asc ''Algorytmy''), Some (asc ''E-CW''), Some (asc ''Anna Nowak''),
          Some (asc ''Platforma Teams''))"
  by (simp add: event_eval parse_eval)

lemma unparsed_event_parse: "parse_event_title (ev_title unparsed_event) = Inr unparsed"
  by (simp add: event_eval parse_eval)

lemma example_durations:
  "ev_duration lecture_event = 75" "ev_duration remote_event = 90"
  "ev_duration unparsed_event = 75"
  by (simp_all add: ev_duration_def event_eval duration_eval)

lemma example_parsed:
  "ev_parsed lecture_event" "ev_parsed remote_event" "\<not> ev_parsed unparsed_event"
  by (simp_all add: ev_parsed_def lecture_event_parse remote_event_parse unparsed_event_parse
      unparsed_def)

text \<open>
  Claim C1: for every sequence of events fed to a fresh aggregator, the run ends without
  an exception, the total-events counter is the number of events, the three counters by
  type plus the unparsed counter give the total-events counter, and the three counters by
  type sum to the number of events whose title parsed.
\<close>

theorem C1_counters_partition_events:
  "\<exists>st. process_events init es = Inr st
     \<and> total_events (stats st) = int (length es)
     \<and> wyklady (stats st) + laboratoria (stats st) + e_cw (stats st) + inne (stats st)
         = total_events (stats st)
     \<and> wyklady (stats st) + laboratoria (stats st) + e_cw (stats st)
         = int (length (filter ev_parsed es))
     \<and> inne (stats st) = int (length (filter (\<lambda>e. \<not> ev_parsed e) es))"
proof -
  from process_events_effect [of init es] obtain st where st: "process_events init es = Inr st"
    and 1: "total_events (stats st) = int (length es)"
      "type_count st = int (length (filter ev_parsed es))"
      "inne (stats st) = int (length (filter (\<lambda>e. \<not> ev_parsed e) es))"
    unfolding init_fields by auto
  have "length (filter ev_parsed es) + length (filter (\<lambda>e. \<not> ev_parsed e) es) = length es"
    by (rule sum_length_filter_compl)
  then have "int (length (filter ev_parsed es)) + int (length (filter (\<lambda>e. \<not> ev_parsed e) es))
             = int (length es)"
    by linarith
  with st 1 show ?thesis
    by (auto simp: type_count_def)
qed

theorem C1_counters_partition_events_witness:
  "\<exists>st. process_events init [lecture_event, unparsed_event, remote_event] = Inr st
     \<and> total_events (stats st) = 3
     \<and> wyklady (stats st) + laboratoria (stats st) + e_cw (stats st) = 2
     \<and> inne (stats st) = 1"
proof -
  from C1_counters_partition_events [of "[lecture_event, unparsed_event, remote_event]"]
  obtain st where "process_events init [lecture_event, unparsed_event, remote_event] = Inr st"
    "total_events (stats st) = 3"
    "wyklady (stats st) + laboratoria (stats st) + e_cw (stats st) = 2"
    "inne (stats st) = 1"
    by (auto simp: example_parsed)
  then show ?thesis by blast
qed

text \<open>
  Claim C8: a call with an event whose title is not parsed adds one to the total-events
  counter and one to the unparsed counter, adds the duration of the event to the total
  minutes, and leaves every other part of the state as it was; the title
  \<open>Losowy tekst bez formatu\<close> is such a title.
\<close>

theorem C8_unparsed_event_frame:
  "(parse_event_title (ev_title e) = Inr unparsed \<longrightarrow>
      process_simple_event self e =
        Inr (self\<lparr>stats := (stats self)
                    \<lparr>total_events := total_events (stats self) + 1,
                     inne := inne (stats self) + 1\<rparr>,
                  time_stats := (time_stats self)
                    \<lparr>total_minutes := total_minutes (time_stats self) + ev_duration e\<rparr>\<rparr>))
   \<and> parse_event_title (asc ''Losowy tekst bez formatu'') = Inr unparsed"
proof -
  have "process_simple_event self e =
        Inr (self\<lparr>stats := (stats self)
                    \<lparr>total_events := total_events (stats self) + 1,
                     inne := inne (stats self) + 1\<rparr>,
                  time_stats := (time_stats self)
                    \<lparr>total_minutes := total_minutes (time_stats self) + ev_duration e\<rparr>\<rparr>)"
    if "parse_event_title (ev_title e) = Inr unparsed"
    using process_unparsed [OF that, of self] by (simp add: counted_def)
  moreover have "parse_event_title (asc ''Losowy tekst bez formatu'') = Inr unparsed"
    by (simp add: parse_eval)
  ultimately show ?thesis by blast
qed

theorem C8_unparsed_event_frame_witness:
  "process_simple_event init unparsed_event =
     Inr (init\<lparr>stats := (stats init)\<lparr>total_events := 1, inne := 1\<rparr>,
               time_stats := (time_stats init)\<lparr>total_minutes := 75\<rparr>\<rparr>)"
  using C8_unparsed_event_frame [of unparsed_event init]
  by (simp add: unparsed_event_parse example_durations init_def)

text \<open>
  Claim C9: after any run the on-campus schedule holds, in input order, exactly the
  entries of the events that were parsed, classified as on campus and had a room and a
  start token; and the location category recomputed from the room of every stored entry
  is on campus.
\<close>

theorem C9_schedule_on_campus:
  "\<exists>st. process_events init es = Inr st
     \<and> uczelnia_schedule st = List.map_filter itinerary_entry es
     \<and> (\<forall>en \<in> set (uczelnia_schedule st). categorize_location (en_room en) = Uczelnia)"
proof -
  from process_events_effect [of init es] obtain st where st: "process_events init es = Inr st"
    and s: "uczelnia_schedule st = List.map_filter itinerary_entry es"
    unfolding init_fields by auto
  have "categorize_location (en_room en) = Uczelnia" if "en \<in> set (uczelnia_schedule st)" for en
  proof -
    from that s obtain e where "itinerary_entry e = Some en"
      by (auto simp: List.map_filter_def)
    then show ?thesis
      by (auto simp: itinerary_entry_def split: sum.splits option.splits if_splits)
  qed
  with st s show ?thesis by blast
qed

theorem C9_schedule_on_campus_witness:
  "\<exists>st. process_events init [remote_event, lecture_event, unparsed_event] = Inr st
     \<and> uczelnia_schedule st =
         [\<lparr>en_subject = asc ''Bazy Danych'', en_type = asc ''W'',
           en_instructor = Some (asc ''Jan Kowalski''), en_room = Some (asc ''A101''),
           en_start_time = asc ''20251116T080000'', en_end_time = asc ''20251116T091500'',
           en_title = ev_title lecture_event\<rparr>]
     \<and> categorize_location (Some (asc ''A101'')) = Uczelnia"
proof -
  have a: "categorize_location (Some (asc ''A101'')) = Uczelnia"
    by (simp add: location_eval)
  have b: "categorize_location (Some (asc ''Platforma Teams'')) = Teams"
    by (simp add: location_eval)
  have se: "ev_start lecture_event = asc ''20251116T080000''"
    "ev_end lecture_event = asc ''20251116T091500''"
    by (simp_all add: ev_start_def ev_end_def dict_get_def lecture_event_def)
  have 1: "itinerary_entry lecture_event =
      Some \<lparr>en_subject = asc ''Bazy Danych'', en_type = asc ''W'',
           en_instructor = Some (asc ''Jan Kowalski''), en_room = Some (asc ''A101''),
           en_start_time = asc ''20251116T080000'', en_end_time = asc ''20251116T091500'',
           en_title = ev_title lecture_event\<rparr>"
    unfolding itinerary_entry_parsed [OF lecture_event_parse] a se
    by (simp add: truthy_def)
  have 2: "itinerary_entry remote_event = None"
    unfolding itinerary_entry_parsed [OF remote_event_parse] b by simp
  have 3: "itinerary_entry unparsed_event = None"
    by (rule itinerary_entry_unparsed) (rule unparsed_event_parse)
  from C9_schedule_on_campus [of "[remote_event, lecture_event, unparsed_event]"]
  show ?thesis
    unfolding List.map_filter_simps 1 2 3 using a by auto
qed

text \<open>
  Claim C10: after any run from a fresh aggregator the three minute totals by type and
  the two minute totals by location have the same sum, the summed durations of the parsed
  events; the total minutes are that sum plus the durations of the events whose title was
  not parsed, and a single unparsed event of 75 minutes makes them strictly larger.
\<close>

theorem C10_minute_totals:
  "(\<exists>st. process_events init es = Inr st
      \<and> wyklady_minutes (time_stats st) + laboratoria_minutes (time_stats st)
          + e_cw_minutes (time_stats st)
          = uczelnia_minutes (time_stats st) + zdalne_minutes (time_stats st)
      \<and> uczelnia_minutes (time_stats st) + zdalne_minutes (time_stats st)
          = sum_list (map ev_duration (filter ev_parsed es))
      \<and> total_minutes (time_stats st)
          = sum_list (map ev_duration (filter ev_parsed es))
            + sum_list (map ev_duration (filter (\<lambda>e. \<not> ev_parsed e) es)))
   \<and> (\<exists>st. process_events init [unparsed_event] = Inr st
         \<and> uczelnia_minutes (time_stats st) + zdalne_minutes (time_stats st)
             < total_minutes (time_stats st))"
proof -
  have split: "sum_list (map ev_duration xs)
      = sum_list (map ev_duration (filter ev_parsed xs))
        + sum_list (map ev_duration (filter (\<lambda>e. \<not> ev_parsed e) xs))" for xs
    by (induction xs) simp_all
  have gen: "\<exists>st. process_events init xs = Inr st
      \<and> type_minutes st = location_minutes st
      \<and> location_minutes st = sum_list (map ev_duration (filter ev_parsed xs))
      \<and> total_minutes (time_stats st)
          = sum_list (map ev_duration (filter ev_parsed xs))
            + sum_list (map ev_duration (filter (\<lambda>e. \<not> ev_parsed e) xs))" for xs
    using process_events_effect [of init xs] split [of xs]
    unfolding init_fields by auto
  from gen [of "[unparsed_event]"]
  have "\<exists>st. process_events init [unparsed_event] = Inr st
         \<and> location_minutes st < total_minutes (time_stats st)"
    by (auto simp: example_parsed example_durations)
  with gen [of es] show ?thesis
    unfolding type_minutes_def location_minutes_def by blast
qed

theorem C10_minute_totals_witness:
  "\<exists>st. process_events init [lecture_event, unparsed_event, remote_event] = Inr st
      \<and> wyklady_minutes (time_stats st) + laboratoria_minutes (time_stats st)
          + e_cw_minutes (time_stats st) = 165
      \<and> uczelnia_minutes (time_stats st) + zdalne_minutes (time_stats st) = 165
      \<and> total_minutes (time_stats st) = 240"
proof -
  from C10_minute_totals [of "[lecture_event, unparsed_event, remote_event]"]
  obtain st where "process_events init [lecture_event, unparsed_event, remote_event] = Inr st"
    "wyklady_minutes (time_stats st) + laboratoria_minutes (time_stats st)
       + e_cw_minutes (time_stats st)
     = uczelnia_minutes (time_stats st) + zdalne_minutes (time_stats st)"
    "uczelnia_minutes (time_stats st) + zdalne_minutes (time_stats st) = 165"
    "total_minutes (time_stats st) = 240"
    by (auto simp: example_parsed example_durations)
  then show ?thesis by auto
qed

section \<open>Computing with the matcher\<close>

lemma ms_cat: "ms n (cat (r # rs)) st = concat (map (ms n (cat rs)) (ms n r st))"
proof (cases rs)
  case Nil
  have "concat (map (ms n (Lit [])) xs) = xs" for xs :: "mstate list"
    by (induction xs) auto
  with Nil show ?thesis by simp
next
  case (Cons a as)
  then show ?thesis by simp
qed

lemma ms_cat_Nil: "ms n (cat []) (x, g) = [(x, g)]"
  by simp

lemma ms_cat_Lit: "ms n (cat (Lit w # rs)) (w @ x, g) = ms n (cat rs) (x, g)"
  by (simp add: ms_cat)

lemma ms_cat_Lit_fail: "\<not> prefix w x \<Longrightarrow> ms n (cat (Lit w # rs)) (x, g) = []"
proof -
  assume "\<not> prefix w x"
  then have "take (length w) x \<noteq> w"
    by (metis take_is_prefix)
  then show ?thesis by (simp add: ms_cat)
qed

lemma ms_cat_Lit_space:
  "\<not> isspace c \<Longrightarrow> isspace a \<Longrightarrow> ms n (cat (Lit (c # w) # rs)) (a # y, g) = []"
  by (rule ms_cat_Lit_fail) auto

lemma ms_cat_Bol: "ms (length x) (cat (Bol # rs)) (x, g) = ms (length x) (cat rs) (x, g)"
  by (simp add: ms_cat)

lemma ms_cat_Eol_Nil: "ms n (cat [Eol]) ([], g) = [([], g)]"
  by simp

text \<open>\<open>\s*\<close> before a literal that starts with no blank: the blanks are skipped.\<close>

lemma skip_spaces_aux:
  assumes "\<not> isspace c"
  shows "concat (map (\<lambda>r. ms n (cat (Lit (c # w) # rs)) (r, g)) (star_g isspace x))
         = ms n (cat (Lit (c # w) # rs)) (dropWhile isspace x, g)"
proof (induction x)
  case Nil
  then show ?case by simp
next
  case (Cons a x)
  show ?case
  proof (cases "isspace a")
    case True
    with Cons ms_cat_Lit_space [OF assms True, of n w rs x g] show ?thesis
      by simp
  next
    case False
    then show ?thesis by simp
  qed
qed

lemma skip_spaces:
  assumes "\<not> isspace c"
  shows "ms n (cat (StarG SpaceC # Lit (c # w) # rs)) (x, g)
         = ms n (cat (Lit (c # w) # rs)) (dropWhile isspace x, g)"
proof -
  have "ms n (cat (StarG SpaceC # Lit (c # w) # rs)) (x, g)
        = concat (map (ms n (cat (Lit (c # w) # rs))) (map (\<lambda>r. (r, g)) (star_g isspace x)))"
    by (simp only: ms_cat [of n "StarG SpaceC"] ms.simps cls_ok.simps [abs_def])
  also have "\<dots> = concat (map (\<lambda>r. ms n (cat (Lit (c # w) # rs)) (r, g)) (star_g isspace x))"
    by (simp add: comp_def)
  finally show ?thesis
    by (simp only: skip_spaces_aux [OF assms])
qed

text \<open>A greedy \<open>\s*\<close> offers the input without its leading blanks first.\<close>

lemma star_g_first: "\<exists>ys. star_g p x = dropWhile p x # ys"
  by (induction x) auto

lemma star_g_all: "list_all p x \<Longrightarrow> \<exists>ys. star_g p x = [] # ys"
proof -
  assume "list_all p x"
  then have "dropWhile p x = []"
    by (simp add: list_all_iff)
  with star_g_first [of p x] show ?thesis by simp
qed

lemma greedy_spaces_first:
  "\<exists>ys. ms n (cat (StarG SpaceC # rs)) (x, g) = ms n (cat rs) (dropWhile isspace x, g) @ ys"
proof -
  from star_g_first [of isspace x] obtain zs where "star_g isspace x = dropWhile isspace x # zs" ..
  then show ?thesis
    by (simp add: ms_cat cls_ok.simps [abs_def])
qed

text \<open>A greedy \<open>(.+)\<close> on a line takes the whole line first.\<close>

lemma greedy_group_first:
  assumes "x \<noteq> []" "list_all (cls_ok k) x"
  shows "\<exists>ys. ms n (cat (Group j (PlusG k) # rs)) (x, g) = ms n (cat rs) ([], g(j \<mapsto> x)) @ ys"
proof -
  from assms obtain c cs where x: "x = c # cs" "cls_ok k c" "list_all (cls_ok k) cs"
    by (cases x) auto
  from star_g_all [OF x(3)] obtain zs where "star_g (cls_ok k) cs = [] # zs" ..
  with x show ?thesis
    by (simp add: ms_cat)
qed

text \<open>
  A lazy \<open>(.+?)\<close>: when the rest of the pattern fails after every shorter run, the
  first matches are those after the run \<open>u\<close>.
\<close>

lemma lazy_scan_aux:
  assumes "list_all p b"
    and "\<And>b1 b2. b = b1 @ b2 \<Longrightarrow> b2 \<noteq> [] \<Longrightarrow> F (b2 @ v) = []"
  shows "concat (map F (star_l p (b @ v))) = concat (map F (star_l p v))"
  using assms
proof (induction b)
  case Nil
  then show ?case by simp
next
  case (Cons c b)
  have 1: "F ((c # b) @ v) = []"
    using Cons.prems(2) [of "[]" "c # b"] by simp
  have 2: "concat (map F (star_l p (b @ v))) = concat (map F (star_l p v))"
  proof (rule Cons.IH)
    show "list_all p b" using Cons.prems(1) by simp
    show "F (b2 @ v) = []" if "b = b1 @ b2" "b2 \<noteq> []" for b1 b2
      using Cons.prems(2) [of "c # b1" b2] that by simp
  qed
  from Cons.prems(1) have "p c" by simp
  with 1 2 show ?case by simp
qed

lemma star_l_first: "\<exists>ys. star_l p v = v # ys"
  by (cases v) auto

lemma lazy_scan:
  assumes u: "u \<noteq> []" "list_all (cls_ok k) u"
    and fail: "\<And>u1 u2. u = u1 @ u2 \<Longrightarrow> u1 \<noteq> [] \<Longrightarrow> u2 \<noteq> [] \<Longrightarrow>
                 ms n (cat rs) (u2 @ v, g(i \<mapsto> u1)) = []"
  shows "\<exists>ys. ms n (cat (Group i (PlusL k) # rs)) (u @ v, g) = ms n (cat rs) (v, g(i \<mapsto> u)) @ ys"
proof -
  from u obtain c b where cb: "u = c # b" "cls_ok k c" "list_all (cls_ok k) b"
    by (cases u) auto
  define x where "x = u @ v"
  define F where "F r = ms n (cat rs) (r, g(i \<mapsto> take (length x - length r) x))" for r
  have "ms n (cat (Group i (PlusL k) # rs)) (x, g) = concat (map F (plus_l (cls_ok k) x))"
    by (simp add: ms_cat F_def [abs_def] comp_def)
  then have "ms n (cat (Group i (PlusL k) # rs)) (u @ v, g)
             = concat (map F (plus_l (cls_ok k) (u @ v)))"
    by (simp only: x_def)
  also have "\<dots> = concat (map F (star_l (cls_ok k) (b @ v)))"
    using cb by simp
  also have "\<dots> = concat (map F (star_l (cls_ok k) v))"
  proof (rule lazy_scan_aux [OF cb(3)])
    fix b1 b2 assume b: "b = b1 @ b2" "b2 \<noteq> []"
    then have "take (length x - length (b2 @ v)) x = c # b1"
      using cb(1) by (simp add: x_def)
    then have "F (b2 @ v) = ms n (cat rs) (b2 @ v, g(i \<mapsto> c # b1))"
      by (simp only: F_def)
    also have "\<dots> = []"
      using fail [of "c # b1" b2] b cb(1) by simp
    finally show "F (b2 @ v) = []" .
  qed
  finally have eq: "ms n (cat (Group i (PlusL k) # rs)) (u @ v, g)
                    = concat (map F (star_l (cls_ok k) v))" .
  from star_l_first [of "cls_ok k" v] obtain zs where "star_l (cls_ok k) v = v # zs" ..
  moreover have "F v = ms n (cat rs) (v, g(i \<mapsto> u))"
    by (simp add: F_def x_def)
  ultimately show ?thesis
    unfolding eq by simp
qed

end
